theory Spec2Isabelle
  imports Main
begin

section \<open>Values, results and exceptions\<close>

text \<open>
  The few Python values the runners inspect: the entries of a stop-sentinel mapping and
  the \<open>extra\<close> element of a payload. \<open>truthy\<close> is Python's \<open>bool(v)\<close>.
\<close>

datatype pyval = PyNone | PyBool bool | PyInt int | PyStr string

fun truthy :: "pyval \<Rightarrow> bool" where
  "truthy PyNone = False"
| "truthy (PyBool b) = b"
| "truthy (PyInt i) = (i \<noteq> 0)"
| "truthy (PyStr s) = (s \<noteq> [])"

text \<open>
  \<open>"{}".format(n)\<close> for a non-negative integer: its decimal digits.
\<close>

fun str_of_nat :: "nat \<Rightarrow> string" where
  "str_of_nat n =
     (if n < 10 then [char_of (48 + n)]
      else str_of_nat (n div 10) @ [char_of (48 + n mod 10)])"

declare str_of_nat.simps [simp del]

text \<open>
  \<open>TaskResult\<close> is a named tuple of four fields; \<open>None\<close> is Python's \<open>None\<close>.
  The task number is optional because \<open>exception_result\<close> reads it with
  \<open>getattr(exc, "task_no", None)\<close>.
\<close>

record TaskResult =
  task_no :: "nat option"
  error :: "string option"
  dep_keys :: "string list option"
  dep_compares :: "string list list option"

text \<open>
  An exception object: the name of its class, whether it is an instance of \<open>Exception\<close> (the only kind
  \<open>except Exception\<close> catches; \<open>KeyboardInterrupt\<close> and \<open>SystemExit\<close> are
  not), the text of \<open>str(e)\<close>, the text \<open>traceback.format_exc()\<close> gives while it
  is handled, and its \<open>task_no\<close> attribute when it has one.
\<close>

record exc =
  exc_type :: string
  is_Exception :: bool
  exc_str :: string
  format_exc :: string
  exc_task_no :: "nat option"

text \<open>\<open>TaskFailed(msg, task_no)\<close>: an \<open>Exception\<close> with a \<open>task_no\<close> attribute.\<close>

definition TaskFailed :: "string \<Rightarrow> nat \<Rightarrow> exc" where
  "TaskFailed msg no =
     \<lparr>exc_type = ''TaskFailed'', is_Exception = True, exc_str = msg, format_exc = [],
      exc_task_no = Some no\<rparr>"

definition exception_result :: "exc \<Rightarrow> TaskResult" where
  "exception_result e =
     \<lparr>task_no = exc_task_no e, error = Some (exc_str e),
      dep_keys = None, dep_compares = None\<rparr>"

definition parent_failed_result :: "nat \<Rightarrow> nat \<Rightarrow> TaskResult" where
  "parent_failed_result idx parent_idx =
     \<lparr>task_no = Some idx,
      error = Some (''Task failed because parent task '' @ [CHR 0x60] @ str_of_nat parent_idx
                    @ [CHR 0x27] @ '' failed''),
      dep_keys = None, dep_compares = None\<rparr>"

section \<open>Tasks and the action executor\<close>

text \<open>
  The type \<open>'w\<close> is the world the actions act on (the file system). A callable action
  is modelled by what it does when applied to its own task, the only argument the
  executor ever passes: it returns the new world, and the exception it raised if any.
  A target has a \<open>name\<close>, a \<open>compare()\<close> that reads the world and either raises or
  yields a sequence that \<open>list(...)\<close> materializes, and the text \<open>format\<close> gives
  for it.
\<close>

type_synonym 'w action_func = "'w \<Rightarrow> exc option \<times> 'w"

datatype 'w action = Command string | Callable "'w action_func"

record 'w target =
  name :: string
  compare :: "'w \<Rightarrow> exc + string list"
  target_str :: string

record 'w task =
  task_task_no :: nat
  actions :: "'w action list"
  targets :: "'w target list"
  task_str :: string

text \<open>
  Modelled from the spec: \<open>helpers.apply_sh\<close>, which is not among the sources. It
  leaves callables as they are and turns a command string into a callable that spawns
  the command, waits, and fails when the exit code is not zero. The shell is a
  parameter: \<open>run_cmd\<close> gives the exit code and the new world, \<open>cmd_failure\<close> the
  \<open>Exception\<close> raised for a command and its non-zero exit code.
\<close>

record 'w shell =
  run_cmd :: "string \<Rightarrow> 'w \<Rightarrow> int \<times> 'w"
  cmd_failure :: "string \<Rightarrow> int \<Rightarrow> exc"

definition sh :: "'w shell \<Rightarrow> string \<Rightarrow> 'w action_func" where
  "sh S c w =
     (case run_cmd S c w of
        (rc, w') \<Rightarrow>
          (if rc \<noteq> 0 then Some ((cmd_failure S c rc)\<lparr>is_Exception := True\<rparr>) else None, w'))"

fun apply_sh :: "'w shell \<Rightarrow> 'w action list \<Rightarrow> 'w action_func list" where
  "apply_sh S [] = []"
| "apply_sh S (Command c # as) = sh S c # apply_sh S as"
| "apply_sh S (Callable f # as) = f # apply_sh S as"

text \<open>The two \<open>logger.debug\<close> lines around each action, with task number and index.\<close>

datatype exec_event = Executing nat nat | Completed nat nat

definition action_error_msg :: "nat \<Rightarrow> string \<Rightarrow> string" where
  "action_error_msg i tb =
     ''Error executing action '' @ str_of_nat i @ ''. Original Exception: ''
       @ [CHR 0x0A] @ tb"

definition target_error_msg :: "string \<Rightarrow> string \<Rightarrow> string" where
  "target_error_msg t tb =
     ''Failed to produce target '' @ [CHR 0x60] @ t @ [CHR 0x27]
       @ ''. Original exception: '' @ tb"

text \<open>
  \<open>_get_task_result\<close>: the loop over the targets, with the two accumulators. An
  exception that is not an \<open>Exception\<close> escapes (\<open>Inl\<close>).
\<close>

fun get_task_result_loop ::
  "nat \<Rightarrow> 'w \<Rightarrow> 'w target list \<Rightarrow> string list \<Rightarrow> string list list \<Rightarrow> exc + TaskResult"
where
  "get_task_result_loop no w [] targ_keys targ_compares =
     Inr \<lparr>task_no = Some no, error = None,
          dep_keys = Some targ_keys, dep_compares = Some targ_compares\<rparr>"
| "get_task_result_loop no w (t # ts) targ_keys targ_compares =
     (case compare t w of
        Inr c \<Rightarrow> get_task_result_loop no w ts (targ_keys @ [name t]) (targ_compares @ [c])
      | Inl e \<Rightarrow>
          if is_Exception e
          then Inr (exception_result
                      (TaskFailed (target_error_msg (target_str t) (format_exc e)) no))
          else Inl e)"

definition get_task_result :: "'w task \<Rightarrow> 'w \<Rightarrow> exc + TaskResult" where
  "get_task_result task w = get_task_result_loop (task_task_no task) w (targets task) [] []"

text \<open>
  \<open>_run_task_locally\<close>: the loop over \<open>enumerate(apply_sh(task.actions))\<close>, from
  index \<open>i\<close>. It returns the result (or the escaping exception), the world the actions
  left, and the log.
\<close>

fun run_actions ::
  "'w task \<Rightarrow> nat \<Rightarrow> 'w action_func list \<Rightarrow> 'w \<Rightarrow> exec_event list
     \<Rightarrow> (exc + TaskResult) \<times> 'w \<times> exec_event list"
where
  "run_actions task i [] w lg = (get_task_result task w, w, lg)"
| "run_actions task i (f # fs) w lg =
     (case f w of
        (None, w') \<Rightarrow>
          run_actions task (Suc i) fs w'
            (lg @ [Executing (task_task_no task) i, Completed (task_task_no task) i])
      | (Some e, w') \<Rightarrow>
          (if is_Exception e
           then Inr (exception_result
                       (TaskFailed (action_error_msg i (format_exc e)) (task_task_no task)))
           else Inl e,
           w', lg @ [Executing (task_task_no task) i]))"

definition run_task_locally ::
  "'w shell \<Rightarrow> 'w task \<Rightarrow> pyval \<Rightarrow> 'w \<Rightarrow> (exc + TaskResult) \<times> 'w \<times> exec_event list"
where
  "run_task_locally S task extra w = run_actions task 0 (apply_sh S (actions task)) w []"

text \<open>
  What it means for a run of actions to succeed, each in the world its predecessors
  left: \<open>actions_world\<close> is \<open>None\<close> when some action raises, and the final world
  otherwise.
\<close>

fun actions_world :: "'w action_func list \<Rightarrow> 'w \<Rightarrow> 'w option" where
  "actions_world [] w = Some w"
| "actions_world (f # fs) w =
     (case f w of (None, w') \<Rightarrow> actions_world fs w' | (Some e, w') \<Rightarrow> None)"

section \<open>The run context\<close>

text \<open>
  Modelled from the spec: \<open>RunContext\<close> and its hooks (\<open>runcontext.py\<close> is not
  among the sources). The runners read \<open>tasks\<close>, \<open>dag.predecessors\<close>,
  \<open>failed_tasks\<close> and \<open>completed_tasks\<close>, and call the two hooks and the
  reporter. \<open>calls\<close> records every such call in order.
\<close>

datatype ctx_call =
    HandleTaskStarted nat
  | HandleTaskResult TaskResult
  | TaskRunning nat
  | TaskCommand nat

record 'w RunContext =
  tasks :: "'w task list"
  predecessors :: "nat \<Rightarrow> nat list"
  failed_tasks :: "nat set"
  completed_tasks :: "nat set"
  calls :: "ctx_call list"

definition InvariantViolation :: exc where
  "InvariantViolation =
     \<lparr>exc_type = ''InvariantViolation'', is_Exception = True,
      exc_str = ''task is already terminal'', format_exc = [], exc_task_no = None\<rparr>"

text \<open>
  Modelled from the spec: \<open>_handle_task_started\<close> is idempotent and informs the
  reporter; \<open>_handle_task_result\<close> puts the task number into exactly one of the
  two sets (\<open>failed_tasks\<close> when the result has an error), fails with
  \<open>InvariantViolation\<close> when the task is already in one of them, and marks no task
  for a result without a task number.
\<close>

definition handle_task_started :: "nat \<Rightarrow> 'w RunContext \<Rightarrow> 'w RunContext" where
  "handle_task_started idx c = c\<lparr>calls := calls c @ [HandleTaskStarted idx]\<rparr>"

definition handle_task_result :: "TaskResult \<Rightarrow> 'w RunContext \<Rightarrow> exc option \<times> 'w RunContext" where
  "handle_task_result r c =
     (let c1 = c\<lparr>calls := calls c @ [HandleTaskResult r]\<rparr> in
      case task_no r of
        None \<Rightarrow> (None, c1)
      | Some i \<Rightarrow>
          if i \<in> failed_tasks c \<or> i \<in> completed_tasks c then (Some InvariantViolation, c1)
          else if error r \<noteq> None then (None, c1\<lparr>failed_tasks := insert i (failed_tasks c)\<rparr>)
          else (None, c1\<lparr>completed_tasks := insert i (completed_tasks c)\<rparr>))"

definition reporter_task_running :: "nat \<Rightarrow> 'w RunContext \<Rightarrow> 'w RunContext" where
  "reporter_task_running idx c = c\<lparr>calls := calls c @ [TaskRunning idx]\<rparr>"

definition reporter_task_command :: "nat \<Rightarrow> 'w RunContext \<Rightarrow> 'w RunContext" where
  "reporter_task_command idx c = c\<lparr>calls := calls c @ [TaskCommand idx]\<rparr>"

definition IndexError :: exc where
  "IndexError =
     \<lparr>exc_type = ''IndexError'', is_Exception = True, exc_str = ''index out of range'',
      format_exc = [], exc_task_no = None\<rparr>"

text \<open>\<open>self.ctx.tasks[idx]\<close> for a non-negative index.\<close>

definition get_task :: "'w RunContext \<Rightarrow> nat \<Rightarrow> exc + 'w task" where
  "get_task c idx = (if idx < length (tasks c) then Inr (tasks c ! idx) else Inl IndexError)"

text \<open>
  What Python leaves open, as parameters: the two serializers (each may raise), and
  the element that iterating a set yields first, called with the elements of the set
  (\<open>next(iter(s))\<close> and \<open>s.pop()\<close> take it).
\<close>

record 'w pyenv =
  dumps :: "'w task \<Rightarrow> exc + string"
  loads :: "string \<Rightarrow> exc + 'w task"
  set_first :: "nat list \<Rightarrow> nat"

text \<open>
  \<open>parents.intersection(failed_tasks)\<close> and \<open>parents.difference(completed_tasks)\<close>,
  as the lists of their elements.
\<close>

definition failed_parents :: "'w RunContext \<Rightarrow> nat \<Rightarrow> nat list" where
  "failed_parents c idx = filter (\<lambda>p. p \<in> failed_tasks c) (remdups (predecessors c idx))"

definition undone_parents :: "'w RunContext \<Rightarrow> nat \<Rightarrow> nat list" where
  "undone_parents c idx = filter (\<lambda>p. p \<notin> completed_tasks c) (remdups (predecessors c idx))"

section \<open>Runners\<close>

text \<open>
  The state of a runner. \<open>BaseRunner\<close> has the two attributes of the base class and
  the deque \<open>run_tasks\<close> is given: a list whose last element is the right end, so
  \<open>pop()\<close> takes \<open>last\<close> and \<open>appendleft\<close> is \<open>#\<close>.
\<close>

record 'w BaseRunner =
  ctx :: "'w RunContext"
  quit_early :: bool
  task_idx_deque :: "nat list"

text \<open>How one pass through a loop body ends.\<close>

datatype flow = Continue | Break | Raise exc

text \<open>\<open>bool(result.error)\<close>: \<open>None\<close> and the empty string are false.\<close>

definition error_truthy :: "TaskResult \<Rightarrow> bool" where
  "error_truthy r = (case error r of None \<Rightarrow> False | Some s \<Rightarrow> s \<noteq> [])"

subsection \<open>SerialLocalRunner\<close>

text \<open>
  The serial runner executes in its own process: its state has the world and the
  executor's log.
\<close>

record 'w SerialLocalRunner = "'w BaseRunner" +
  world :: 'w
  exec_log :: "exec_event list"

text \<open>The body of the \<open>while\<close> loop of \<open>SerialLocalRunner.run_tasks\<close>.\<close>

definition serial_body ::
  "'w pyenv \<Rightarrow> 'w shell \<Rightarrow> 'w SerialLocalRunner \<Rightarrow> flow \<times> 'w SerialLocalRunner"
where
  "serial_body E S r =
     (case task_idx_deque r of
        [] \<Rightarrow> (Raise IndexError, r)
      | _ # _ \<Rightarrow>
          let idx = last (task_idx_deque r);
              r1 = r\<lparr>task_idx_deque := butlast (task_idx_deque r)\<rparr>;
              fp = failed_parents (ctx r1) idx
          in
          if fp \<noteq> [] then
            (case handle_task_result (parent_failed_result idx (set_first E fp)) (ctx r1) of
               (Some e, c1) \<Rightarrow> (Raise e, r1\<lparr>ctx := c1\<rparr>)
             | (None, c1) \<Rightarrow> (Continue, r1\<lparr>ctx := c1\<rparr>))
          else
            let c1 = reporter_task_command idx
                       (reporter_task_running idx (handle_task_started idx (ctx r1)));
                r2 = r1\<lparr>ctx := c1\<rparr>
            in
            (case get_task c1 idx of
               Inl e \<Rightarrow> (Raise e, r2)
             | Inr task \<Rightarrow>
                 (case run_task_locally S task PyNone (world r2) of
                    (Inl e, w1, lg) \<Rightarrow>
                      (Raise e, r2\<lparr>world := w1, exec_log := exec_log r2 @ lg\<rparr>)
                  | (Inr result, w1, lg) \<Rightarrow>
                      let r3 = r2\<lparr>world := w1, exec_log := exec_log r2 @ lg\<rparr> in
                      (case handle_task_result result (ctx r3) of
                         (Some e, c2) \<Rightarrow> (Raise e, r3\<lparr>ctx := c2\<rparr>)
                       | (None, c2) \<Rightarrow>
                           (if quit_early r3 \<and> error_truthy result then Break else Continue,
                            r3\<lparr>ctx := c2\<rparr>)))))"

text \<open>
  Every pass of the loop pops one index and pushes none: the loop ends.
\<close>

lemma serial_body_deque:
  "task_idx_deque r \<noteq> [] \<Longrightarrow> serial_body E S r = (fl, r1) \<Longrightarrow>
   task_idx_deque r1 = butlast (task_idx_deque r)"
  by (cases "task_idx_deque r")
     (auto simp: serial_body_def Let_def split: prod.splits option.splits sum.splits if_splits)

text \<open>
  \<open>SerialLocalRunner.run_tasks\<close>: the \<open>while\<close> loop. The result is the
  exception that escaped, if any.
\<close>

function serial_loop ::
  "'w pyenv \<Rightarrow> 'w shell \<Rightarrow> 'w SerialLocalRunner \<Rightarrow> exc option \<times> 'w SerialLocalRunner"
where
  "serial_loop E S r =
     (if task_idx_deque r = [] then (None, r)
      else case serial_body E S r of
             (Continue, r1) \<Rightarrow> serial_loop E S r1
           | (Break, r1) \<Rightarrow> (None, r1)
           | (Raise e, r1) \<Rightarrow> (Some e, r1))"
  by pat_completeness auto
termination
proof (relation "measure (\<lambda>(E, S, r). length (task_idx_deque r))")
  show "wf (measure (\<lambda>(E, S, r). length (task_idx_deque r)))" by simp
next
  fix E :: "'w pyenv" and S :: "'w shell" and r x1 :: "'w SerialLocalRunner" and x :: flow
  assume ne: "task_idx_deque r \<noteq> []" and body: "(x, x1) = serial_body E S r"
  have "task_idx_deque x1 = butlast (task_idx_deque r)"
    using serial_body_deque [OF ne body [symmetric]] .
  with ne show "((E, S, x1), (E, S, r)) \<in> measure (\<lambda>(E, S, r). length (task_idx_deque r))"
    by (cases "task_idx_deque r" rule: rev_cases) simp_all
qed

declare serial_loop.simps [simp del]

definition serial_run_tasks ::
  "'w pyenv \<Rightarrow> 'w shell \<Rightarrow> 'w SerialLocalRunner \<Rightarrow> nat list
     \<Rightarrow> exc option \<times> 'w SerialLocalRunner"
where
  "serial_run_tasks E S r dq = serial_loop E S (r\<lparr>task_idx_deque := dq\<rparr>)"



subsection \<open>The worker loop\<close>

text \<open>
  What travels on a work channel: a pair of a payload and \<open>extra\<close>. The payload is
  a pickled task (bytes) or a \<open>dict\<close>, the stop sentinel being
  \<open>{"stop": True}\<close>.
\<close>

datatype payload = Pickled string | Dict "(string \<times> pyval) list"

text \<open>
  What one \<open>work_q.get()\<close> does: it returns an item or raises. An \<open>IOError\<close>
  carries its \<open>message\<close> attribute when it has one (Python 2 gives every exception
  one; in Python 3 \<open>IOError\<close> is \<open>OSError\<close>, which has none) and its
  \<open>errno\<close>.
\<close>

datatype recv =
    Item payload pyval
  | RaiseIOError "string option" "int option"
  | RaiseEOFError

text \<open>The \<open>logger.debug\<close> lines of the loop, and the calls on reporter and lock.\<close>

datatype worker_event =
    GettingWork | GotWork
  | ReceivedIOError string "int option" | ReceivedEOFError | ReceivedSentinel
  | DeserializingTask | TaskDeserialized | FailedToDeserialize
  | RunningTask nat
  | LockAcquire | ReporterTaskRunning nat | ReporterTaskCommand nat | LockRelease
  | FinishedRunning | ResultPut

record 'w worker =
  result_q :: "TaskResult list"
  worker_world :: 'w
  worker_log :: "worker_event list"

text \<open>How a call ends: it returns, an exception escapes, or it waits for ever.\<close>

datatype status = Returned | Raised exc | Blocked

definition AttributeError :: "string \<Rightarrow> exc" where
  "AttributeError attr =
     \<lparr>exc_type = ''AttributeError'', is_Exception = True,
      exc_str = ''object has no attribute '' @ attr, format_exc = [], exc_task_no = None\<rparr>"

definition TypeError :: exc where
  "TypeError =
     \<lparr>exc_type = ''TypeError'', is_Exception = True,
      exc_str = ''a bytes-like object is required'', format_exc = [], exc_task_no = None\<rparr>"

text \<open>\<open>type(pkl) is dict and pkl.get("stop", False)\<close>.\<close>

definition is_stop :: "payload \<Rightarrow> bool" where
  "is_stop pkl =
     (case pkl of
        Dict d \<Rightarrow> (case map_of d ''stop'' of Some v \<Rightarrow> truthy v | None \<Rightarrow> False)
      | Pickled b \<Rightarrow> False)"

text \<open>\<open>pickle.loads(pkl)\<close>: a \<open>dict\<close> is not bytes.\<close>

definition pickle_loads :: "'w pyenv \<Rightarrow> payload \<Rightarrow> exc + 'w task" where
  "pickle_loads E pkl = (case pkl of Pickled b \<Rightarrow> loads E b | Dict d \<Rightarrow> Inl TypeError)"

definition report_running :: "bool \<Rightarrow> bool \<Rightarrow> nat \<Rightarrow> worker_event list" where
  "report_running reporter lock no =
     (if reporter then
        (if lock then [LockAcquire] else [])
        @ [ReporterTaskRunning no, ReporterTaskCommand no]
        @ (if lock then [LockRelease] else [])
      else [])"

type_synonym 'w run_task =
  "'w task \<Rightarrow> pyval \<Rightarrow> 'w \<Rightarrow> (exc + TaskResult) \<times> 'w \<times> exec_event list"

text \<open>
  \<open>worker_run_loop\<close>. The list is what the successive \<open>work_q.get()\<close> calls
  do; when it is used up the next \<open>get\<close> blocks. \<open>reporter\<close> says that a
  reporter was given, \<open>lock\<close> that a lock was. The result has what is left of the
  list.
\<close>

fun worker_run_loop ::
  "'w pyenv \<Rightarrow> 'w run_task \<Rightarrow> bool \<Rightarrow> bool \<Rightarrow> recv list \<Rightarrow> 'w worker
     \<Rightarrow> status \<times> recv list \<times> 'w worker"
where
  "worker_run_loop E run_task reporter lock [] st =
     (Blocked, [], st\<lparr>worker_log := worker_log st @ [GettingWork]\<rparr>)"
| "worker_run_loop E run_task reporter lock (RaiseIOError message errno # work_q) st =
     (case message of
        None \<Rightarrow>
          (Raised (AttributeError ''message''), work_q,
           st\<lparr>worker_log := worker_log st @ [GettingWork]\<rparr>)
      | Some m \<Rightarrow>
          (Returned, work_q,
           st\<lparr>worker_log := worker_log st @ [GettingWork, ReceivedIOError m errno]\<rparr>))"
| "worker_run_loop E run_task reporter lock (RaiseEOFError # work_q) st =
     (Returned, work_q, st\<lparr>worker_log := worker_log st @ [GettingWork, ReceivedEOFError]\<rparr>)"
| "worker_run_loop E run_task reporter lock (Item pkl extra # work_q) st =
     (let st1 = st\<lparr>worker_log := worker_log st @ [GettingWork, GotWork]\<rparr> in
      if is_stop pkl
      then (Returned, work_q, st1\<lparr>worker_log := worker_log st1 @ [ReceivedSentinel]\<rparr>)
      else
        (case pickle_loads E pkl of
           Inl e \<Rightarrow>
             if is_Exception e
             then worker_run_loop E run_task reporter lock work_q
                    (st1\<lparr>result_q := result_q st1 @ [exception_result e],
                        worker_log := worker_log st1 @ [DeserializingTask, FailedToDeserialize]\<rparr>)
             else (Raised e, work_q,
                   st1\<lparr>worker_log := worker_log st1 @ [DeserializingTask]\<rparr>)
         | Inr task \<Rightarrow>
             let st2 = st1\<lparr>worker_log := worker_log st1
                         @ [DeserializingTask, TaskDeserialized, RunningTask (task_task_no task)]
                         @ report_running reporter lock (task_task_no task)\<rparr>
             in
             (case run_task task extra (worker_world st2) of
                (Inl e, w1, lg) \<Rightarrow> (Raised e, work_q, st2\<lparr>worker_world := w1\<rparr>)
              | (Inr result, w1, lg) \<Rightarrow>
                  worker_run_loop E run_task reporter lock work_q
                    (st2\<lparr>worker_world := w1,
                        result_q := result_q st2 @ [result],
                        worker_log := worker_log st2 @ [FinishedRunning, ResultPut]\<rparr>))))"

subsection \<open>ParallelLocalRunner\<close>

text \<open>
  The runners with worker pools share the counter \<open>n_to_do\<close>, the flag
  \<open>started\<close>, and what they do to their workers, recorded in \<open>events\<close>.
\<close>

datatype runner_event = StartWorkers | Terminate | Cleanup

record 'w PoolRunner = "'w BaseRunner" +
  n_to_do :: int
  started :: bool
  events :: "runner_event list"

text \<open>
  \<open>work_q\<close> holds what the coordinator has put on the work channel and
  \<open>terminate\<close> has not drained; what the workers take from it is not tracked here,
  their results arrive as the outcomes of \<open>result_q.get()\<close>. \<open>jobs\<close> is the
  number of workers.
\<close>

record 'w ParallelLocalRunner = "'w PoolRunner" +
  work_q :: "(payload \<times> pyval) list"
  jobs :: nat

definition serialize_error_msg :: "string \<Rightarrow> string \<Rightarrow> string" where
  "serialize_error_msg t e =
     ''Unable to serialize task '' @ [CHR 0x60] @ t @ [CHR 0x27]
       @ ''. Original error was '' @ [CHR 0x60] @ e @ [CHR 0x27] @ ''.''"

definition ValueError :: "string \<Rightarrow> exc" where
  "ValueError msg =
     \<lparr>exc_type = ''ValueError'', is_Exception = True, exc_str = msg, format_exc = [],
      exc_task_no = None\<rparr>"

text \<open>
  The \<open>try\<close> block around \<open>cloudpickle.dumps(self.ctx.tasks[idx])\<close>: an
  \<open>Exception\<close> becomes a \<open>ValueError\<close> that names the task and the cause. A
  missing task raises again in the handler, which formats the same task.
\<close>

definition serialize_task :: "'w pyenv \<Rightarrow> 'w RunContext \<Rightarrow> nat \<Rightarrow> exc + string" where
  "serialize_task E c idx =
     (case get_task c idx of
        Inl e \<Rightarrow> Inl e
      | Inr task \<Rightarrow>
          (case dumps E task of
             Inr pkl \<Rightarrow> Inr pkl
           | Inl e \<Rightarrow>
               if is_Exception e
               then Inl (ValueError (serialize_error_msg (task_str task) (exc_str e)))
               else Inl e))"

text \<open>The body of the \<open>for\<close> loop of \<open>ParallelLocalRunner._fill_work_q\<close>.\<close>

definition fill_work_q_body ::
  "'w pyenv \<Rightarrow> 'w ParallelLocalRunner \<Rightarrow> flow \<times> 'w ParallelLocalRunner"
where
  "fill_work_q_body E r =
     (case task_idx_deque r of
        [] \<Rightarrow> (Raise IndexError, r)
      | _ # _ \<Rightarrow>
          let idx = last (task_idx_deque r);
              r1 = r\<lparr>task_idx_deque := butlast (task_idx_deque r)\<rparr>;
              fp = failed_parents (ctx r1) idx
          in
          if fp \<noteq> [] then
            (case handle_task_result (parent_failed_result idx (set_first E fp)) (ctx r1) of
               (Some e, c1) \<Rightarrow> (Raise e, r1\<lparr>ctx := c1\<rparr>)
             | (None, c1) \<Rightarrow> (Continue, r1\<lparr>ctx := c1, n_to_do := n_to_do r1 - 1\<rparr>))
          else if undone_parents (ctx r1) idx \<noteq> [] then
            (Continue, r1\<lparr>task_idx_deque := idx # task_idx_deque r1\<rparr>)
          else
            (case serialize_task E (ctx r1) idx of
               Inl e \<Rightarrow> (Raise e, r1)
             | Inr pkl \<Rightarrow>
                 (Continue,
                  r1\<lparr>ctx := handle_task_started idx (ctx r1),
                     work_q := work_q r1 @ [(Pickled pkl, PyNone)]\<rparr>)))"

text \<open>The loop \<open>for _ in range(len(self.task_idx_deque))\<close>, with \<open>n\<close> passes left.\<close>

fun fill_loop ::
  "'w pyenv \<Rightarrow> nat \<Rightarrow> 'w ParallelLocalRunner \<Rightarrow> exc option \<times> 'w ParallelLocalRunner"
where
  "fill_loop E 0 r = (None, r)"
| "fill_loop E (Suc n) r =
     (case fill_work_q_body E r of
        (Raise e, r1) \<Rightarrow> (Some e, r1)
      | (_, r1) \<Rightarrow> fill_loop E n r1)"

definition start_workers :: "'w ParallelLocalRunner \<Rightarrow> 'w ParallelLocalRunner" where
  "start_workers r =
     (if \<not> started r then r\<lparr>started := True, events := events r @ [StartWorkers]\<rparr> else r)"

definition fill_work_q ::
  "'w pyenv \<Rightarrow> 'w ParallelLocalRunner \<Rightarrow> exc option \<times> 'w ParallelLocalRunner"
where
  "fill_work_q E r =
     (case fill_loop E (length (task_idx_deque r)) r of
        (Some e, r1) \<Rightarrow> (Some e, r1)
      | (None, r1) \<Rightarrow> (None, start_workers r1))"

text \<open>
  \<open>terminate\<close> drains the work channel, then terminates and joins the workers;
  \<open>cleanup\<close> puts one stop sentinel for each worker, then joins them.
\<close>

definition stop_sentinel :: "payload \<times> pyval" where
  "stop_sentinel = (Dict [(''stop'', PyBool True)], PyNone)"

definition terminate :: "'w ParallelLocalRunner \<Rightarrow> 'w ParallelLocalRunner" where
  "terminate r = r\<lparr>work_q := [], events := events r @ [Terminate]\<rparr>"

definition cleanup :: "'w ParallelLocalRunner \<Rightarrow> 'w ParallelLocalRunner" where
  "cleanup r =
     r\<lparr>work_q := work_q r @ replicate (jobs r) stop_sentinel,
       events := events r @ [Cleanup]\<rparr>"

text \<open>What one \<open>self.result_q.get()\<close> does: it returns a result or raises.\<close>

datatype got = Got TaskResult | GetRaised exc

text \<open>
  The \<open>while True\<close> loop of \<open>ParallelLocalRunner.run_tasks\<close>. The list is what the
  successive \<open>result_q.get()\<close> calls do; when it is used up the next \<open>get\<close>
  blocks. An exception out of \<open>_fill_work_q\<close> or out of \<open>_handle_task_result\<close>
  is in no \<open>try\<close> block: it leaves \<open>run_tasks\<close> at once.
\<close>

fun run_loop ::
  "'w pyenv \<Rightarrow> got list \<Rightarrow> 'w ParallelLocalRunner \<Rightarrow> status \<times> 'w ParallelLocalRunner"
where
  "run_loop E gets r =
     (case fill_work_q E r of
        (Some e, r1) \<Rightarrow> (Raised e, r1)
      | (None, r1) \<Rightarrow>
          if n_to_do r1 \<le> 0 then (Returned, cleanup r1)
          else
            (case gets of
               [] \<Rightarrow> (Blocked, r1)
             | GetRaised e # gs \<Rightarrow>
                 if is_Exception e \<or> exc_type e = ''SystemExit''
                    \<or> exc_type e = ''KeyboardInterrupt''
                 then (Raised e, terminate r1)
                 else (Raised e, r1)
             | Got result # gs \<Rightarrow>
                 let r2 = r1\<lparr>n_to_do := n_to_do r1 - 1\<rparr> in
                 (case handle_task_result result (ctx r2) of
                    (Some e, c) \<Rightarrow> (Raised e, r2\<lparr>ctx := c\<rparr>)
                  | (None, c) \<Rightarrow>
                      if quit_early r2 \<and> error_truthy result
                      then (Returned, cleanup (terminate (r2\<lparr>ctx := c\<rparr>)))
                      else run_loop E gs (r2\<lparr>ctx := c\<rparr>))))"

declare run_loop.simps [simp del]

definition run_tasks ::
  "'w pyenv \<Rightarrow> got list \<Rightarrow> 'w ParallelLocalRunner \<Rightarrow> nat list
     \<Rightarrow> status \<times> 'w ParallelLocalRunner"
where
  "run_tasks E gets r dq =
     run_loop E gets (r\<lparr>task_idx_deque := dq, n_to_do := int (length dq)\<rparr>)"

subsection \<open>GridRunner\<close>

text \<open>
  A worker class: its name and whether it is a subclass of
  \<open>multiprocessing.Process\<close>. The dictionaries are association lists in insertion
  order: \<open>worker_config\<close> maps a pool's name to its class and its number of workers,
  \<open>worker_qs\<close> to its work channel and its result channel, \<open>routes\<close> a task
  number to a pool's name and an \<open>extra\<close>. A worker is known by the name of its
  pool. \<open>qcycle\<close> is the position of \<open>itertools.cycle\<close> in the values of
  \<open>worker_qs\<close>. \<open>polls\<close> records what \<open>_get_result\<close> does.
\<close>

record worker_class =
  cls_name :: string
  is_process :: bool

datatype poll_event = Poll nat | Sleep nat

record 'w GridRunner = "'w PoolRunner" +
  worker_config :: "(string \<times> worker_class \<times> nat) list"
  worker_qs :: "(string \<times> (payload \<times> pyval) list \<times> TaskResult list) list"
  routes :: "(nat \<times> string \<times> pyval) list"
  workers :: "string list"
  default_worker :: "string option"
  qcycle :: nat
  polls :: "poll_event list"

text \<open>
  \<open>GridRunner(workflow)\<close>. The attributes the constructor does not set
  (\<open>task_idx_deque\<close>, \<open>n_to_do\<close>, \<open>_qcycle\<close>) start empty or at zero.
\<close>

definition GridRunner :: "'w RunContext \<Rightarrow> 'w GridRunner" where
  "GridRunner workflow =
     \<lparr>ctx = workflow, quit_early = False, task_idx_deque = [],
      n_to_do = 0, started = False, events = [],
      worker_config = [], worker_qs = [], routes = [], workers = [],
      default_worker = None, qcycle = 0, polls = []\<rparr>"

text \<open>Assignment to a dictionary entry: in place for a key it has, at the end otherwise.\<close>

fun dict_set :: "'k \<Rightarrow> 'v \<Rightarrow> ('k \<times> 'v) list \<Rightarrow> ('k \<times> 'v) list" where
  "dict_set k v [] = [(k, v)]"
| "dict_set k v ((k', v') # d) = (if k' = k then (k, v) # d else (k', v') # dict_set k v d)"

definition add_worker ::
  "worker_class \<Rightarrow> string \<Rightarrow> nat \<Rightarrow> bool \<Rightarrow> 'w GridRunner \<Rightarrow> 'w GridRunner"
where
  "add_worker worker_cls nm rate dflt g =
     (let g1 = g\<lparr>worker_config := dict_set nm (worker_cls, rate) (worker_config g)\<rparr> in
      if dflt then g1\<lparr>default_worker := Some nm\<rparr> else g1)"

definition no_route_msg :: "nat \<Rightarrow> string" where
  "no_route_msg no =
     ''GridRunner tried to run task '' @ str_of_nat no
       @ '' but has no runner to run it and no default runner is defined''"

text \<open>\<open>GridRunner.route\<close>.\<close>

definition route :: "'w GridRunner \<Rightarrow> nat \<Rightarrow> exc + string \<times> pyval" where
  "route g no =
     (case map_of (routes g) no of
        Some r \<Rightarrow> Inr r
      | None \<Rightarrow>
          (case default_worker g of
             Some d \<Rightarrow> Inr (d, PyNone)
           | None \<Rightarrow> Inl (ValueError (no_route_msg no))))"

text \<open>
  \<open>GridRunner._init_workers\<close>: fresh channels for every pool, the workers that are
  processes before those that are threads, and the cycle at its start.
\<close>

definition pool_workers :: "bool \<Rightarrow> (string \<times> worker_class \<times> nat) list \<Rightarrow> string list" where
  "pool_workers isproc cfg =
     concat (map (\<lambda>(nm, cls, n_procs).
                    if is_process cls = isproc then replicate n_procs nm else []) cfg)"

definition init_workers :: "'w GridRunner \<Rightarrow> 'w GridRunner" where
  "init_workers g =
     g\<lparr>worker_qs := fold (\<lambda>(nm, cls, n_procs). dict_set nm ([], [])) (worker_config g)
                        (worker_qs g),
       workers := pool_workers True (worker_config g) @ pool_workers False (worker_config g),
       qcycle := 0\<rparr>"





definition StopIteration :: exc where
  "StopIteration =
     \<lparr>exc_type = ''StopIteration'', is_Exception = True, exc_str = [], format_exc = [],
      exc_task_no = None\<rparr>"

text \<open>
  The \<open>for\<close> loop of \<open>GridRunner._get_result\<close>, with \<open>n\<close> passes left:
  \<open>next(self._qcycle)\<close> takes the channel at the cursor (a position in the
  values of \<open>worker_qs\<close>, counted modulo their number) and moves the cursor on,
  \<open>get(False)\<close> takes the first result of that channel if it has one.
\<close>

datatype polled = Found TaskResult | AllEmpty | PollRaised exc

fun poll_loop :: "nat \<Rightarrow> 'w GridRunner \<Rightarrow> polled \<times> 'w GridRunner" where
  "poll_loop 0 g = (AllEmpty, g)"
| "poll_loop (Suc n) g =
     (if worker_qs g = [] then (PollRaised StopIteration, g)
      else
        let i = qcycle g mod length (worker_qs g);
            g1 = g\<lparr>qcycle := (i + 1) mod length (worker_qs g), polls := polls g @ [Poll i]\<rparr>
        in
        (case worker_qs g ! i of
           (nm, wq, []) \<Rightarrow> poll_loop n g1
         | (nm, wq, ret # rq) \<Rightarrow>
             (Found ret, g1\<lparr>worker_qs := (worker_qs g)[i := (nm, wq, rq)]\<rparr>)))"

text \<open>
  What the workers put on the result channels while the runner sleeps: pairs of a
  channel's position and a result.
\<close>

fun deliver :: "(nat \<times> TaskResult) list \<Rightarrow> 'w GridRunner \<Rightarrow> 'w GridRunner" where
  "deliver [] g = g"
| "deliver ((i, res) # rs) g =
     deliver rs
       (if i < length (worker_qs g)
        then (case worker_qs g ! i of
                (nm, wq, rq) \<Rightarrow> g\<lparr>worker_qs := (worker_qs g)[i := (nm, wq, rq @ [res])]\<rparr>)
        else g)"

text \<open>
  \<open>GridRunner._get_result\<close>: the \<open>while True\<close> loop. The list gives, for each
  \<open>time.sleep(0.05)\<close>, what arrives during it; when it is used up nothing arrives
  any more and the loop sleeps for ever. The sleep is recorded in milliseconds.
\<close>

fun get_result ::
  "(nat \<times> TaskResult) list list \<Rightarrow> 'w GridRunner \<Rightarrow> status \<times> TaskResult option \<times> 'w GridRunner"
where
  "get_result arrivals g =
     (case poll_loop (length (workers g)) g of
        (Found ret, g1) \<Rightarrow> (Returned, Some ret, g1)
      | (PollRaised e, g1) \<Rightarrow> (Raised e, None, g1)
      | (AllEmpty, g1) \<Rightarrow>
          (case arrivals of
             [] \<Rightarrow> (Blocked, None, g1\<lparr>polls := polls g1 @ [Sleep 50]\<rparr>)
           | a # as \<Rightarrow> get_result as (deliver a (g1\<lparr>polls := polls g1 @ [Sleep 50]\<rparr>))))"

declare get_result.simps [simp del]

section \<open>The module's shared grid runner\<close>

text \<open>
  \<open>_current_grid_runner\<close> is a module variable that holds \<open>None\<close> or a reference
  to a \<open>GridRunner\<close> object. Objects live in a store and are known by their
  address, the position in the store.
\<close>

record 'w module_state =
  current_grid_runner_var :: "nat option"
  store :: "'w GridRunner list"

definition current_grid_runner ::
  "'w RunContext \<Rightarrow> 'w module_state \<Rightarrow> nat \<times> 'w module_state"
where
  "current_grid_runner context m =
     (case current_grid_runner_var m of
        None \<Rightarrow>
          (length (store m),
           m\<lparr>current_grid_runner_var := Some (length (store m)),
             store := store m @ [GridRunner context]\<rparr>)
      | Some a \<Rightarrow> (a, m))"

section \<open>The run command\<close>

text \<open>
  The argument list of \<open>Run._execute\<close>. A Python list is an object in a store, and
  a list can hold a reference to a list, itself included.
\<close>

datatype pyobj = Obj string | Bool bool | OptInt "int option" | ListRef nat

definition new_list :: "pyobj list \<Rightarrow> pyobj list list \<Rightarrow> nat \<times> pyobj list list" where
  "new_list xs h = (length h, h @ [xs])"

definition list_append :: "nat \<Rightarrow> pyobj \<Rightarrow> pyobj list list \<Rightarrow> pyobj list list" where
  "list_append a x h = h[a := h ! a @ [x]]"

text \<open>
  The lines of \<open>Run._execute\<close> that build \<open>run_args\<close>: the address of the list
  and the store.
\<close>

definition execute_run_args ::
  "pyobj \<Rightarrow> pyobj \<Rightarrow> pyobj \<Rightarrow> bool \<Rightarrow> bool \<Rightarrow> int option \<Rightarrow> int
     \<Rightarrow> pyobj list list \<Rightarrow> nat \<times> pyobj list list"
where
  "execute_run_args dep_class dep_file reporter_obj continue always verbosity num_process h =
     (case new_list [dep_class, dep_file, reporter_obj, Bool continue, Bool always,
                     OptInt verbosity] h of
        (run_args, h1) \<Rightarrow>
          (run_args,
           if num_process > 0 then list_append run_args (ListRef run_args) h1 else h1))"

text \<open>\<open>RunnerClass(*run_args)\<close>: the constructor gets the elements of the list.\<close>

definition runner_args :: "nat \<times> pyobj list list \<Rightarrow> pyobj list" where
  "runner_args ah = (case ah of (run_args, h) \<Rightarrow> h ! run_args)"

section \<open>Examples\<close>

text \<open>
  A small world for running the definitions: the world is a counter that every command
  increments; the command \<open>false\<close> exits with code 1, every other with 0.
\<close>

definition ex_shell :: "nat shell" where
  "ex_shell =
     \<lparr>run_cmd = (\<lambda>c w. (if c = ''false'' then 1 else 0, Suc w)),
      cmd_failure = (\<lambda>c rc. \<lparr>exc_type = ''ShellException'', is_Exception = True,
                               exc_str = ''command failed'',
                               format_exc = ''Traceback: '' @ c, exc_task_no = None\<rparr>)\<rparr>"

definition ex_target :: "nat target" where
  "ex_target = \<lparr>name = ''out.txt'', compare = (\<lambda>w. Inr [''mtime'', str_of_nat w]),
                target_str = ''File(out.txt)''\<rparr>"

definition ex_task :: "nat task" where
  "ex_task =
     \<lparr>task_task_no = 0,
      actions = [Command ''true'', Callable (\<lambda>w. (None, w + 10))],
      targets = [ex_target], task_str = ''Task(0)''\<rparr>"

definition ex_failing_task :: "nat task" where
  "ex_failing_task =
     \<lparr>task_task_no = 1,
      actions = [Command ''true'', Command ''false'', Command ''true''],
      targets = [ex_target], task_str = ''Task(1)''\<rparr>"

definition ex_ctx :: "nat RunContext" where
  "ex_ctx =
     \<lparr>tasks = [ex_task, ex_failing_task], predecessors = (\<lambda>i. if i = 1 then [0] else []),
      failed_tasks = {}, completed_tasks = {}, calls = []\<rparr>"

definition ex_ctx2 :: "nat RunContext" where
  "ex_ctx2 = ex_ctx\<lparr>tasks := []\<rparr>"

definition ex_process :: worker_class where
  "ex_process = \<lparr>cls_name = ''ParallelLocalWorker'', is_process = True\<rparr>"

definition ex_grid :: "nat GridRunner" where
  "ex_grid =
     (add_worker ex_process ''slow'' 1 False
        (add_worker ex_process ''fast'' 1 True (GridRunner ex_ctx)))
       \<lparr>routes := [(3, ''slow'', PyNone)]\<rparr>"

definition UnpicklingError :: exc where
  "UnpicklingError =
     \<lparr>exc_type = ''UnpicklingError'', is_Exception = True, exc_str = ''invalid load key'',
      format_exc = [], exc_task_no = None\<rparr>"

definition PicklingError :: exc where
  "PicklingError =
     \<lparr>exc_type = ''PicklingError'', is_Exception = True, exc_str = ''cannot pickle'',
      format_exc = [], exc_task_no = None\<rparr>"

definition ex_env :: "nat pyenv" where
  "ex_env =
     \<lparr>dumps = (\<lambda>t. if task_task_no t = 1 then Inl PicklingError else Inr (task_str t)),
      loads = (\<lambda>b. if b = ''Task(0)'' then Inr ex_task else Inl UnpicklingError),
      set_first = hd\<rparr>"

definition ex_worker :: "nat worker" where
  "ex_worker = \<lparr>result_q = [], worker_world = 0, worker_log = []\<rparr>"

definition ex_grid_two :: "nat GridRunner" where
  "ex_grid_two = init_workers (add_worker ex_process ''fast'' 2 True (GridRunner ex_ctx))"

definition ex_result :: TaskResult where
  "ex_result = \<lparr>task_no = Some 0, error = None, dep_keys = Some [], dep_compares = Some []\<rparr>"

definition ex_grid_idle :: "nat GridRunner" where
  "ex_grid_idle =
     init_workers (add_worker ex_process ''slow'' 1 False
       (add_worker ex_process ''fast'' 1 True (GridRunner ex_ctx)))"

definition ex_grid_pools :: "nat GridRunner" where
  "ex_grid_pools = deliver [(1, ex_result)] ex_grid_idle"


definition ex_parallel :: "nat ParallelLocalRunner" where
  "ex_parallel =
     \<lparr>ctx = ex_ctx, quit_early = False, task_idx_deque = [], n_to_do = 0, started = False,
      events = [], work_q = [], jobs = 2\<rparr>"


definition ex_parallel_ready :: "nat ParallelLocalRunner" where
  "ex_parallel_ready =
     ex_parallel\<lparr>ctx := ex_ctx\<lparr>completed_tasks := {0}\<rparr>, task_idx_deque := [1],
                  n_to_do := 1, started := True, events := [StartWorkers]\<rparr>"

definition KeyboardInterrupt :: exc where
  "KeyboardInterrupt =
     \<lparr>exc_type = ''KeyboardInterrupt'', is_Exception = False, exc_str = [],
      format_exc = ''Traceback: KeyboardInterrupt'', exc_task_no = None\<rparr>"

definition ex_interrupted_task :: "nat task" where
  "ex_interrupted_task =
     \<lparr>task_task_no = 2,
      actions = [Command ''true'', Callable (\<lambda>w. (Some KeyboardInterrupt, w + 10)),
                 Command ''true''],
      targets = [ex_target], task_str = ''Task(2)''\<rparr>"

definition ex_grid_starved :: "nat GridRunner" where
  "ex_grid_starved =
     deliver [(1, ex_result)]
       (init_workers (add_worker ex_process ''busy'' 1 False
          (add_worker ex_process ''idle'' 0 True (GridRunner ex_ctx))))"

section \<open>The action executor: properties\<close>

lemma upt_add_Suc: "[k ..< Suc (k + n)] = k # [Suc k ..< Suc (k + n)]"
  by (simp add: upt_conv_Cons del: upt_Suc)

lemma length_apply_sh: "length (apply_sh S as) = length as"
  by (induction S as rule: apply_sh.induct) simp_all

lemma nth_apply_sh:
  "i < length as \<Longrightarrow>
   apply_sh S as ! i = (case as ! i of Command c \<Rightarrow> sh S c | Callable f \<Rightarrow> f)"
proof (induction S as arbitrary: i rule: apply_sh.induct)
  case (1 S)
  then show ?case by simp
next
  case (2 S c as)
  then show ?case by (cases i) simp_all
next
  case (3 S f as)
  then show ?case by (cases i) simp_all
qed

lemma get_task_result_loop_ok:
  "\<forall>t \<in> set ts. \<exists>c. compare t w = Inr c \<Longrightarrow>
   \<exists>cs. get_task_result_loop no w ts ks cmps =
      Inr \<lparr>task_no = Some no, error = None,
           dep_keys = Some (ks @ map name ts), dep_compares = Some (cmps @ cs)\<rparr>
     \<and> length cs = length ts \<and> (\<forall>i < length ts. compare (ts ! i) w = Inr (cs ! i))"
proof (induction ts arbitrary: ks cmps)
  case Nil
  then show ?case by simp
next
  case (Cons t ts)
  from Cons.prems obtain c where c: "compare t w = Inr c" by auto
  from Cons.prems have "\<forall>t \<in> set ts. \<exists>c. compare t w = Inr c" by simp
  from Cons.IH [OF this, of "ks @ [name t]" "cmps @ [c]"]
  obtain cs where cs: "get_task_result_loop no w ts (ks @ [name t]) (cmps @ [c]) =
      Inr \<lparr>task_no = Some no, error = None,
           dep_keys = Some ((ks @ [name t]) @ map name ts),
           dep_compares = Some ((cmps @ [c]) @ cs)\<rparr>"
     and len: "length cs = length ts"
     and nth: "\<forall>i < length ts. compare (ts ! i) w = Inr (cs ! i)" by blast
  have "\<forall>i < length (t # ts). compare ((t # ts) ! i) w = Inr ((c # cs) ! i)"
    using c nth by (auto simp: nth_Cons split: nat.splits)
  with cs len c show ?case
    by (intro exI [of _ "c # cs"]) simp
qed

lemma run_actions_ok:
  "actions_world fs w = Some w' \<Longrightarrow>
   run_actions task k fs w lg =
     (get_task_result task w', w',
      lg @ concat (map (\<lambda>j. [Executing (task_task_no task) j, Completed (task_task_no task) j])
                     [k ..< k + length fs]))"
proof (induction fs arbitrary: k w lg)
  case Nil
  then show ?case by simp
next
  case (Cons f fs)
  from Cons.prems obtain w1 where f: "f w = (None, w1)" and aw: "actions_world fs w1 = Some w'"
    by (auto split: prod.splits option.splits)
  show ?case using Cons.IH [OF aw, of "Suc k"] f
    by (simp add: upt_add_Suc del: upt_Suc)
qed

lemma run_actions_fail:
  "i < length fs \<Longrightarrow> actions_world (take i fs) w = Some wi \<Longrightarrow>
   (fs ! i) wi = (Some e, w') \<Longrightarrow>
   run_actions task k fs w lg =
     (if is_Exception e
      then Inr (exception_result
                  (TaskFailed (action_error_msg (k + i) (format_exc e)) (task_task_no task)))
      else Inl e,
      w',
      lg @ concat (map (\<lambda>j. [Executing (task_task_no task) j, Completed (task_task_no task) j])
                     [k ..< k + i]) @ [Executing (task_task_no task) (k + i)])"
proof (induction fs arbitrary: i k w lg)
  case Nil
  then show ?case by simp
next
  case (Cons f fs)
  show ?case
  proof (cases i)
    case 0
    with Cons.prems show ?thesis by simp
  next
    case (Suc i')
    with Cons.prems obtain w1 where f: "f w = (None, w1)"
      and aw: "actions_world (take i' fs) w1 = Some wi"
      by (auto split: prod.splits option.splits)
    from Cons.prems Suc have "i' < length fs" "(fs ! i') wi = (Some e, w')" by simp_all
    from Cons.IH [OF \<open>i' < length fs\<close> aw \<open>(fs ! i') wi = (Some e, w')\<close>, of "Suc k"] f Suc
    show ?thesis
      by (simp add: upt_add_Suc del: upt_Suc)
  qed
qed

text \<open>
  C2. When every action of a task succeeds, each in the world the earlier ones left, and
  \<open>compare()\<close> succeeds for every target in the world the actions left, the executor
  returns a result with the task's number, no error, and two lists as long as the
  task's targets: the \<open>i\<close>-th key is the \<open>i\<close>-th target's name and the \<open>i\<close>-th
  comparison is the list the \<open>i\<close>-th target's \<open>compare()\<close> produced.
\<close>

theorem run_task_locally_success:
  assumes "actions_world (apply_sh S (actions task)) w = Some w'"
    and "\<forall>t \<in> set (targets task). \<exists>c. compare t w' = Inr c"
  shows "\<exists>keys cmps.
           fst (run_task_locally S task extra w) =
             Inr \<lparr>task_no = Some (task_task_no task), error = None,
                  dep_keys = Some keys, dep_compares = Some cmps\<rparr>
         \<and> length keys = length (targets task) \<and> length cmps = length (targets task)
         \<and> (\<forall>i < length (targets task).
                keys ! i = name (targets task ! i)
              \<and> compare (targets task ! i) w' = Inr (cmps ! i))"
proof -
  from get_task_result_loop_ok [OF assms(2), of "task_task_no task" "[]" "[]"]
  obtain cs where cs: "get_task_result task w' =
        Inr \<lparr>task_no = Some (task_task_no task), error = None,
             dep_keys = Some (map name (targets task)), dep_compares = Some cs\<rparr>"
    and len: "length cs = length (targets task)"
    and nth: "\<forall>i < length (targets task). compare (targets task ! i) w' = Inr (cs ! i)"
    by (auto simp: get_task_result_def)
  have "fst (run_task_locally S task extra w) = get_task_result task w'"
    by (simp add: run_task_locally_def run_actions_ok [OF assms(1)])
  with cs len nth show ?thesis
    by (intro exI [of _ "map name (targets task)"] exI [of _ cs]) simp
qed

theorem run_task_locally_success_witness:
  "actions_world (apply_sh ex_shell (actions ex_task)) 0 = Some 11
   \<and> targets ex_task = [ex_target]
   \<and> compare ex_target 11 = Inr [''mtime'', str_of_nat 11]
   \<and> (\<exists>keys cmps.
           fst (run_task_locally ex_shell ex_task PyNone 0) =
             Inr \<lparr>task_no = Some 0, error = None,
                  dep_keys = Some keys, dep_compares = Some cmps\<rparr>
         \<and> length keys = 1 \<and> length cmps = 1
         \<and> keys ! 0 = ''out.txt'' \<and> compare ex_target 11 = Inr (cmps ! 0))"
proof -
  have a: "actions_world (apply_sh ex_shell (actions ex_task)) 0 = Some 11"
    by (simp add: ex_task_def ex_shell_def sh_def)
  have b: "\<forall>t \<in> set (targets ex_task). \<exists>c. compare t 11 = Inr c"
    by (simp add: ex_task_def ex_target_def)
  have c: "name ex_target = ''out.txt''"
    by (simp add: ex_target_def)
  have d: "targets ex_task = [ex_target]"
    by (simp add: ex_task_def)
  have e: "compare ex_target 11 = Inr [''mtime'', str_of_nat 11]"
    by (simp add: ex_target_def)
  from run_task_locally_success [OF a b, of PyNone] a c d e show ?thesis
    by (simp add: ex_task_def)
qed

text \<open>
  C3, as amended. When the actions before index \<open>i\<close> succeed and action \<open>i\<close>
  fails with an \<open>Exception\<close> (a callable raises one, or a command exits with a code
  other than zero), the executor returns a failed result: the task's number, an error
  text that names \<open>i\<close> and ends with the captured traceback, and no keys and no
  comparisons. When a callable raises an exception that is not an \<open>Exception\<close>
  (\<open>KeyboardInterrupt\<close>, \<open>SystemExit\<close>), \<open>except Exception\<close> does not catch
  it: it escapes from the executor and there is no result. In both cases the world is
  the one action \<open>i\<close> left, and the log shows the actions \<open>0..i\<close> and no action
  of greater index.
\<close>

theorem run_task_locally_action_raises:
  assumes "i < length (actions task)"
    and "actions_world (take i (apply_sh S (actions task))) w = Some wi"
  shows "((\<exists>f. actions task ! i = Callable f \<and> f wi = (Some e, w') \<and> is_Exception e)
          \<or> (\<exists>c rc. actions task ! i = Command c \<and> run_cmd S c wi = (rc, w') \<and> rc \<noteq> 0
                \<and> e = (cmd_failure S c rc)\<lparr>is_Exception := True\<rparr>) \<longrightarrow>
          run_task_locally S task extra w =
            (Inr \<lparr>task_no = Some (task_task_no task),
                  error = Some (''Error executing action '' @ str_of_nat i
                                @ ''. Original Exception: '' @ [CHR 0x0A] @ format_exc e),
                  dep_keys = None, dep_compares = None\<rparr>,
             w',
             concat (map (\<lambda>j. [Executing (task_task_no task) j, Completed (task_task_no task) j])
                       [0 ..< i]) @ [Executing (task_task_no task) i]))
       \<and> ((\<exists>f. actions task ! i = Callable f \<and> f wi = (Some e, w') \<and> \<not> is_Exception e) \<longrightarrow>
          run_task_locally S task extra w =
            (Inl e, w',
             concat (map (\<lambda>j. [Executing (task_task_no task) j, Completed (task_task_no task) j])
                       [0 ..< i]) @ [Executing (task_task_no task) i]))
       \<and> (\<forall>j n. i < j \<longrightarrow>
              Executing n j \<notin> set (concat (map (\<lambda>j. [Executing (task_task_no task) j,
                                                      Completed (task_task_no task) j]) [0 ..< i])
                                     @ [Executing (task_task_no task) i]))"
proof (intro conjI impI)
  let ?fs = "apply_sh S (actions task)"
  have len: "i < length ?fs" using assms(1) by (simp add: length_apply_sh)
  {
    assume h: "(\<exists>f. actions task ! i = Callable f \<and> f wi = (Some e, w') \<and> is_Exception e)
          \<or> (\<exists>c rc. actions task ! i = Command c \<and> run_cmd S c wi = (rc, w') \<and> rc \<noteq> 0
                \<and> e = (cmd_failure S c rc)\<lparr>is_Exception := True\<rparr>)"
    have fi: "(?fs ! i) wi = (Some e, w')" and ex: "is_Exception e"
      using h by (auto simp: nth_apply_sh [OF assms(1)] sh_def)
    show "run_task_locally S task extra w =
            (Inr \<lparr>task_no = Some (task_task_no task),
                  error = Some (''Error executing action '' @ str_of_nat i
                                @ ''. Original Exception: '' @ [CHR 0x0A] @ format_exc e),
                  dep_keys = None, dep_compares = None\<rparr>,
             w',
             concat (map (\<lambda>j. [Executing (task_task_no task) j, Completed (task_task_no task) j])
                       [0 ..< i]) @ [Executing (task_task_no task) i])"
      using run_actions_fail [OF len assms(2) fi, of task 0 "[]"] ex
      by (simp add: run_task_locally_def exception_result_def TaskFailed_def action_error_msg_def)
  }
  {
    assume h: "\<exists>f. actions task ! i = Callable f \<and> f wi = (Some e, w') \<and> \<not> is_Exception e"
    have fi: "(?fs ! i) wi = (Some e, w')" and ex: "\<not> is_Exception e"
      using h by (auto simp: nth_apply_sh [OF assms(1)])
    show "run_task_locally S task extra w =
            (Inl e, w',
             concat (map (\<lambda>j. [Executing (task_task_no task) j, Completed (task_task_no task) j])
                       [0 ..< i]) @ [Executing (task_task_no task) i])"
      using run_actions_fail [OF len assms(2) fi, of task 0 "[]"] ex
      by (simp add: run_task_locally_def)
  }
  show "\<forall>j n. i < j \<longrightarrow>
              Executing n j \<notin> set (concat (map (\<lambda>j. [Executing (task_task_no task) j,
                                                      Completed (task_task_no task) j]) [0 ..< i])
                                     @ [Executing (task_task_no task) i])"
    by auto
qed

text \<open>
  C3, as stated, fails: the second action of the task raises \<open>KeyboardInterrupt\<close>,
  and the executor returns no failed result, the exception escapes from it.
\<close>

theorem run_task_locally_interrupt_escapes:
  "actions ex_interrupted_task ! 1 = Callable (\<lambda>w. (Some KeyboardInterrupt, w + 10))
   \<and> run_task_locally ex_shell ex_interrupted_task PyNone 0 =
        (Inl KeyboardInterrupt, 11, [Executing 2 0, Completed 2 0, Executing 2 1])"
  by (simp add: ex_interrupted_task_def run_task_locally_def sh_def ex_shell_def
        KeyboardInterrupt_def)

theorem run_task_locally_action_raises_witness:
  "1 < length (actions ex_failing_task)
   \<and> actions_world (take 1 (apply_sh ex_shell (actions ex_failing_task))) 0 = Some 1
   \<and> actions ex_failing_task ! 1 = Command ''false''
   \<and> run_cmd ex_shell ''false'' 1 = (1, 2)
   \<and> run_task_locally ex_shell ex_failing_task PyNone 0 =
           (Inr \<lparr>task_no = Some 1,
                 error = Some (''Error executing action '' @ str_of_nat 1
                               @ ''. Original Exception: '' @ [CHR 0x0A] @ ''Traceback: false''),
                 dep_keys = None, dep_compares = None\<rparr>,
            2, [Executing 1 0, Completed 1 0, Executing 1 1])
   \<and> 1 < length (actions ex_interrupted_task)
   \<and> actions_world (take 1 (apply_sh ex_shell (actions ex_interrupted_task))) 0 = Some 1
   \<and> actions ex_interrupted_task ! 1 = Callable (\<lambda>w. (Some KeyboardInterrupt, w + 10))
   \<and> \<not> is_Exception KeyboardInterrupt
   \<and> run_task_locally ex_shell ex_interrupted_task PyNone 0 =
        (Inl KeyboardInterrupt, 11, [Executing 2 0, Completed 2 0, Executing 2 1])"
proof -
  have a: "1 < length (actions ex_failing_task)"
    by (simp add: ex_failing_task_def)
  have b: "actions_world (take 1 (apply_sh ex_shell (actions ex_failing_task))) 0 = Some 1"
    by (simp add: ex_failing_task_def ex_shell_def sh_def)
  have c: "actions ex_failing_task ! 1 = Command ''false''"
    by (simp add: ex_failing_task_def)
  have d: "run_cmd ex_shell ''false'' 1 = (1, 2)"
    by (simp add: ex_shell_def)
  have a': "1 < length (actions ex_interrupted_task)"
    by (simp add: ex_interrupted_task_def)
  have b': "actions_world (take 1 (apply_sh ex_shell (actions ex_interrupted_task))) 0 = Some 1"
    by (simp add: ex_interrupted_task_def ex_shell_def sh_def)
  have c': "actions ex_interrupted_task ! 1 = Callable (\<lambda>w. (Some KeyboardInterrupt, w + 10))"
    by (simp add: ex_interrupted_task_def)
  have d': "\<not> is_Exception KeyboardInterrupt"
    by (simp add: KeyboardInterrupt_def)
  from run_task_locally_action_raises [OF a b,
         where e = "(cmd_failure ex_shell ''false'' 1)\<lparr>is_Exception := True\<rparr>" and w' = 2
           and extra = PyNone] c d
  have r1: "run_task_locally ex_shell ex_failing_task PyNone 0 =
           (Inr \<lparr>task_no = Some 1,
                 error = Some (''Error executing action '' @ str_of_nat 1
                               @ ''. Original Exception: '' @ [CHR 0x0A] @ ''Traceback: false''),
                 dep_keys = None, dep_compares = None\<rparr>,
            2, [Executing 1 0, Completed 1 0, Executing 1 1])"
    by (simp add: ex_failing_task_def ex_shell_def)
  from run_task_locally_action_raises [OF a' b',
         where e = KeyboardInterrupt and w' = 11 and extra = PyNone] c' d'
  have r2: "run_task_locally ex_shell ex_interrupted_task PyNone 0 =
        (Inl KeyboardInterrupt, 11, [Executing 2 0, Completed 2 0, Executing 2 1])"
    by (simp add: ex_interrupted_task_def)
  from a b c d a' b' c' d' r1 r2 show ?thesis by simp
qed

section \<open>Routing, the shared grid runner, the run command: properties\<close>

text \<open>
  C5. \<open>GridRunner.route\<close> returns the route registered for the task number when
  there is one; otherwise the default pool's name with no \<open>extra\<close> when a default
  pool is set; otherwise it fails. The failure the spec calls \<open>NoRouteError\<close> is a
  \<open>ValueError\<close> whose text names the task number.
\<close>

theorem route_cases:
  "(map_of (routes g) no = Some r \<longrightarrow> route g no = Inr r)
   \<and> (map_of (routes g) no = None \<and> default_worker g = Some d \<longrightarrow> route g no = Inr (d, PyNone))
   \<and> (map_of (routes g) no = None \<and> default_worker g = None \<longrightarrow>
        (\<exists>e. route g no = Inl e \<and> exc_type e = ''ValueError''
              \<and> exc_str e = ''GridRunner tried to run task '' @ str_of_nat no
                   @ '' but has no runner to run it and no default runner is defined''))"
  by (simp add: route_def ValueError_def no_route_msg_def)

theorem route_cases_witness:
  "map_of (routes ex_grid) 3 = Some (''slow'', PyNone)
   \<and> route ex_grid 3 = Inr (''slow'', PyNone)
   \<and> map_of (routes ex_grid) 1 = None \<and> default_worker ex_grid = Some ''fast''
   \<and> route ex_grid 1 = Inr (''fast'', PyNone)
   \<and> map_of (routes (GridRunner ex_ctx)) 1 = None \<and> default_worker (GridRunner ex_ctx) = None
   \<and> (\<exists>e. route (GridRunner ex_ctx) 1 = Inl e \<and> exc_type e = ''ValueError'')"
proof -
  have a: "map_of (routes ex_grid) 3 = Some (''slow'', PyNone)"
    by (simp add: ex_grid_def add_worker_def GridRunner_def)
  have b: "map_of (routes ex_grid) 1 = None \<and> default_worker ex_grid = Some ''fast''"
    by (simp add: ex_grid_def add_worker_def GridRunner_def)
  have c: "map_of (routes (GridRunner ex_ctx)) 1 = None \<and> default_worker (GridRunner ex_ctx) = None"
    by (simp add: GridRunner_def)
  from route_cases [of ex_grid 3 "(''slow'', PyNone)" "''fast''"]
       route_cases [of ex_grid 1 "(''slow'', PyNone)" "''fast''"]
       route_cases [of "GridRunner ex_ctx" 1 "(''slow'', PyNone)" "''fast''"] a b c
  show ?thesis by auto
qed

text \<open>
  C9. Starting from a module whose variable is still \<open>None\<close>, a call with
  \<open>c1\<close> followed by a call with \<open>c2\<close> returns the same address both times,
  the object at that address is the one built from \<open>c1\<close>, the second call changes
  nothing, and its outcome is the same for every argument.
\<close>

theorem current_grid_runner_memoized:
  assumes "current_grid_runner_var m = None"
    and "current_grid_runner c1 m = (a1, m1)"
    and "current_grid_runner c2 m1 = (a2, m2)"
  shows "a2 = a1 \<and> m2 = m1 \<and> store m2 ! a1 = GridRunner c1
       \<and> (\<forall>c. current_grid_runner c m1 = (a1, m1))"
  using assms by (auto simp: current_grid_runner_def)

theorem current_grid_runner_memoized_witness:
  "current_grid_runner_var \<lparr>current_grid_runner_var = None, store = []\<rparr> = None
   \<and> current_grid_runner ex_ctx \<lparr>current_grid_runner_var = None, store = []\<rparr>
       = (0, \<lparr>current_grid_runner_var = Some 0, store = [GridRunner ex_ctx]\<rparr>)
   \<and> current_grid_runner ex_ctx2 \<lparr>current_grid_runner_var = Some 0, store = [GridRunner ex_ctx]\<rparr>
       = (0, \<lparr>current_grid_runner_var = Some 0, store = [GridRunner ex_ctx]\<rparr>)
   \<and> store \<lparr>current_grid_runner_var = Some 0, store = [GridRunner ex_ctx]\<rparr> ! 0 = GridRunner ex_ctx"
proof -
  let ?m = "\<lparr>current_grid_runner_var = None, store = ([] :: nat GridRunner list)\<rparr>"
  let ?m1 = "\<lparr>current_grid_runner_var = Some 0, store = [GridRunner ex_ctx]\<rparr>"
  have a: "current_grid_runner_var ?m = None" by simp
  have b: "current_grid_runner ex_ctx ?m = (0, ?m1)"
    by (simp add: current_grid_runner_def)
  have c: "current_grid_runner ex_ctx2 ?m1 = (0, ?m1)"
    by (simp add: current_grid_runner_def)
  from current_grid_runner_memoized [OF a b c] a b c show ?thesis by simp
qed

text \<open>
  The argument list the runner class is called with, for every \<open>num_process\<close>: six
  elements, and for a positive \<open>num_process\<close> a seventh, a reference to the list.
\<close>

lemma execute_run_args_cases:
  "runner_args (execute_run_args dc df ro c a v n h) =
     (if n > 0
      then [dc, df, ro, Bool c, Bool a, OptInt v, ListRef (length h)]
      else [dc, df, ro, Bool c, Bool a, OptInt v])"
  by (simp add: runner_args_def execute_run_args_def new_list_def list_append_def)

text \<open>
  C8. With \<open>num_process = 1\<close> the list built by \<open>Run._execute\<close> holds a
  reference to itself as its seventh element.
\<close>

theorem execute_run_args_self_reference:
  "execute_run_args (Obj ''dep_class'') (Obj ''dep_file'') (Obj ''reporter_obj'')
       False False None 1 []
     = (0, [[Obj ''dep_class'', Obj ''dep_file'', Obj ''reporter_obj'',
             Bool False, Bool False, OptInt None, ListRef 0]])
   \<and> ListRef 0 \<in> set (runner_args
         (execute_run_args (Obj ''dep_class'') (Obj ''dep_file'') (Obj ''reporter_obj'')
            False False None 1 []))"
  by (simp add: runner_args_def execute_run_args_def new_list_def list_append_def)

section \<open>The worker loop: properties\<close>

text \<open>
  C7. When a worker receives a payload whose first element is a \<open>dict\<close> with
  \<open>stop\<close> set to \<open>True\<close>, whatever its state and whatever else waits on the
  work channel, the loop returns at once: the log shows the sentinel and no
  deserialization, the rest of the work channel is not touched, and the result channel
  and the world are as they were. Every pass of the loop starts as a call of
  \<open>worker_run_loop\<close> on what is left of the channel, so this covers every payload
  the worker receives.
\<close>

theorem worker_stop_sentinel:
  assumes "map_of d ''stop'' = Some (PyBool True)"
  shows "worker_run_loop E run_task reporter lock (Item (Dict d) extra # rest) st =
           (Returned, rest,
            st\<lparr>worker_log := worker_log st @ [GettingWork, GotWork, ReceivedSentinel]\<rparr>)"
  using assms by (simp add: is_stop_def)

theorem worker_stop_sentinel_witness:
  "map_of [(''stop'', PyBool True)] ''stop'' = Some (PyBool True)
   \<and> worker_run_loop ex_env (run_task_locally ex_shell) True True
        [Item (Dict [(''stop'', PyBool True)]) PyNone, Item (Pickled ''Task(0)'') PyNone] ex_worker =
       (Returned, [Item (Pickled ''Task(0)'') PyNone],
        \<lparr>result_q = [], worker_world = 0,
          worker_log = [GettingWork, GotWork, ReceivedSentinel]\<rparr>)"
proof -
  have a: "map_of [(''stop'', PyBool True)] ''stop'' = Some (PyBool True)" by simp
  from worker_stop_sentinel [OF a, of ex_env "run_task_locally ex_shell" True True PyNone
         "[Item (Pickled ''Task(0)'') PyNone]" ex_worker] a
  show ?thesis by (simp add: ex_worker_def)
qed

text \<open>
  When receiving raises \<open>EOFError\<close> or \<open>IOError\<close>, nothing is put on the
  result channel; the loop returns for \<open>EOFError\<close> and for an \<open>IOError\<close> that
  has a \<open>message\<close> attribute.
\<close>

lemma worker_receive_error_result_q:
  "result_q (snd (snd (worker_run_loop E run_task reporter lock (RaiseEOFError # rest) st)))
     = result_q st"
  "result_q (snd (snd (worker_run_loop E run_task reporter lock
                         (RaiseIOError message errno # rest) st)))
     = result_q st"
  by (simp_all split: option.splits)

lemma worker_receive_error_returns:
  "worker_run_loop E run_task reporter lock (RaiseEOFError # rest) st =
     (Returned, rest, st\<lparr>worker_log := worker_log st @ [GettingWork, ReceivedEOFError]\<rparr>)"
  "worker_run_loop E run_task reporter lock (RaiseIOError (Some m) errno # rest) st =
     (Returned, rest,
      st\<lparr>worker_log := worker_log st @ [GettingWork, ReceivedIOError m errno]\<rparr>)"
  by simp_all

text \<open>
  C10. When receiving raises an \<open>IOError\<close> that has no \<open>message\<close> attribute,
  the handler's own \<open>e.message\<close> raises \<open>AttributeError\<close>: the loop does not
  return, the exception escapes from it. Nothing is put on the result channel.
\<close>

theorem worker_ioerror_without_message:
  "worker_run_loop ex_env (run_task_locally ex_shell) True True
     [RaiseIOError None (Some 32), Item (Pickled ''Task(0)'') PyNone] ex_worker =
     (Raised (AttributeError ''message''), [Item (Pickled ''Task(0)'') PyNone],
      \<lparr>result_q = [], worker_world = 0, worker_log = [GettingWork]\<rparr>)"
  by (simp add: ex_worker_def)

section \<open>Collecting results in the grid: properties\<close>

text \<open>
  One pass of \<open>n\<close> polls that all find their channel empty: poll \<open>j\<close> goes to
  the channel \<open>j\<close> places after the cursor, and the cursor ends \<open>n\<close> places on.
  Channels the pass does not reach may hold results.
\<close>

lemma poll_loop_none:
  assumes "qcycle g < length (worker_qs g)"
    and "\<forall>j<n. snd (snd (worker_qs g ! ((qcycle g + j) mod length (worker_qs g)))) = []"
  shows "poll_loop n g =
           (AllEmpty,
            g\<lparr>qcycle := (qcycle g + n) mod length (worker_qs g),
              polls := polls g @ map (\<lambda>j. Poll ((qcycle g + j) mod length (worker_qs g))) [0..<n]\<rparr>)"
  using assms
proof (induction n arbitrary: g)
  case 0
  then show ?case by simp
next
  case (Suc n)
  let ?K = "length (worker_qs g)"
  let ?c = "qcycle g"
  let ?g1 = "g\<lparr>qcycle := (?c + 1) mod ?K, polls := polls g @ [Poll ?c]\<rparr>"
  have ne: "worker_qs g \<noteq> []" using Suc.prems(1) by auto
  have emp: "snd (snd (worker_qs g ! ?c)) = []"
    using Suc.prems(2) [rule_format, of 0] Suc.prems(1) by simp
  have step: "poll_loop (Suc n) g = poll_loop n ?g1"
    using ne emp Suc.prems(1) by (cases "worker_qs g ! ?c") (simp add: Let_def)
  have c1: "qcycle ?g1 < length (worker_qs ?g1)" using ne by simp
  have e1: "\<forall>j<n. snd (snd (worker_qs ?g1 ! ((qcycle ?g1 + j) mod length (worker_qs ?g1)))) = []"
  proof (intro allI impI)
    fix j assume "j < n"
    then have "snd (snd (worker_qs g ! ((?c + Suc j) mod ?K))) = []"
      using Suc.prems(2) [rule_format, of "Suc j"] by simp
    then show "snd (snd (worker_qs ?g1 ! ((qcycle ?g1 + j) mod length (worker_qs ?g1)))) = []"
      by (simp add: mod_simps)
  qed
  have m: "map (\<lambda>j. Poll ((?c + j) mod ?K)) [0..<Suc n]
             = Poll ?c # map (\<lambda>j. Poll (((?c + 1) mod ?K + j) mod ?K)) [0..<n]"
  proof -
    have "[0..<Suc n] = 0 # map Suc [0..<n]"
      by (simp add: upt_conv_Cons map_Suc_upt del: upt_Suc)
    then show ?thesis using Suc.prems(1)
      by (simp add: comp_def mod_simps del: upt_Suc)
  qed
  show ?case
    unfolding step Suc.IH [OF c1 e1] m
    by (simp add: mod_simps)
qed

text \<open>A pass stops at the first poll that finds a result.\<close>

lemma poll_loop_found:
  assumes "qcycle g < length (worker_qs g)"
    and "j < n"
    and "\<forall>i<j. snd (snd (worker_qs g ! ((qcycle g + i) mod length (worker_qs g)))) = []"
    and "worker_qs g ! ((qcycle g + j) mod length (worker_qs g)) = (nm, wq, ret # rq)"
  shows "poll_loop n g =
           (Found ret,
            g\<lparr>qcycle := (qcycle g + Suc j) mod length (worker_qs g),
              polls := polls g @ map (\<lambda>i. Poll ((qcycle g + i) mod length (worker_qs g))) [0..<Suc j],
              worker_qs := (worker_qs g)[(qcycle g + j) mod length (worker_qs g) := (nm, wq, rq)]\<rparr>)"
  using assms
proof (induction j arbitrary: n g)
  case 0
  then obtain n' where n: "n = Suc n'" by (cases n) auto
  have ne: "worker_qs g \<noteq> []" using 0(1) by auto
  from 0 show ?case unfolding n using ne by (simp add: Let_def)
next
  case (Suc j)
  then obtain n' where n: "n = Suc n'" and jn: "j < n'" by (cases n) auto
  let ?K = "length (worker_qs g)"
  let ?c = "qcycle g"
  let ?g1 = "g\<lparr>qcycle := (?c + 1) mod ?K, polls := polls g @ [Poll ?c]\<rparr>"
  have ne: "worker_qs g \<noteq> []" using Suc.prems(1) by auto
  have emp: "snd (snd (worker_qs g ! ?c)) = []"
    using Suc.prems(3) [rule_format, of 0] Suc.prems(1) by simp
  have step: "poll_loop n g = poll_loop n' ?g1"
    unfolding n using ne emp Suc.prems(1) by (cases "worker_qs g ! ?c") (simp add: Let_def)
  have c1: "qcycle ?g1 < length (worker_qs ?g1)" using ne by simp
  have e1: "\<forall>i<j. snd (snd (worker_qs ?g1 ! ((qcycle ?g1 + i) mod length (worker_qs ?g1)))) = []"
  proof (intro allI impI)
    fix i assume "i < j"
    then have "snd (snd (worker_qs g ! ((?c + Suc i) mod ?K))) = []"
      using Suc.prems(3) [rule_format, of "Suc i"] by simp
    then show "snd (snd (worker_qs ?g1 ! ((qcycle ?g1 + i) mod length (worker_qs ?g1)))) = []"
      by (simp add: mod_simps)
  qed
  have f1: "worker_qs ?g1 ! ((qcycle ?g1 + j) mod length (worker_qs ?g1)) = (nm, wq, ret # rq)"
    using Suc.prems(4) by (simp add: mod_simps)
  have m: "map (\<lambda>i. Poll ((?c + i) mod ?K)) [0..<Suc (Suc j)]
             = Poll ?c # map (\<lambda>i. Poll (((?c + 1) mod ?K + i) mod ?K)) [0..<Suc j]"
  proof -
    have "[0..<Suc (Suc j)] = 0 # map Suc [0..<Suc j]"
      by (simp add: upt_conv_Cons map_Suc_upt del: upt_Suc)
    then show ?thesis using Suc.prems(1)
      by (simp add: comp_def mod_simps del: upt_Suc)
  qed
  have "(Suc ?c mod ?K + Suc j) mod ?K = (Suc ?c + Suc j) mod ?K"
    by (rule mod_add_left_eq)
  then have ar: "Suc (Suc ?c mod ?K + j) mod ?K = Suc (Suc (?c + j)) mod ?K"
    by simp
  show ?case
    unfolding step Suc.IH [OF c1 jn e1 f1] m
    by (simp add: mod_simps ar)
qed

text \<open>
  The channels a full pass of \<open>W\<close> polls reaches are all \<open>K\<close> channels, each
  once, exactly when \<open>W = K\<close>.
\<close>

lemma round_robin_perm:
  assumes "c < K"
  shows "distinct (map (\<lambda>j. (c + j) mod K) [0..<K])
       \<and> set (map (\<lambda>j. (c + j) mod K) [0..<K]) = {0..<K}"
proof -
  have "map (\<lambda>j. (c + j) mod K) [0..<K] = rotate c [0..<K]"
    by (rule nth_equalityI) (simp_all add: nth_rotate)
  then show ?thesis by simp
qed

lemma round_robin_once_iff:
  assumes "c < K"
  shows "(distinct (map (\<lambda>j. (c + j) mod K) [0..<W])
          \<and> set (map (\<lambda>j. (c + j) mod K) [0..<W]) = {0..<K}) = (W = K)"
proof
  assume h: "distinct (map (\<lambda>j. (c + j) mod K) [0..<W])
          \<and> set (map (\<lambda>j. (c + j) mod K) [0..<W]) = {0..<K}"
  then have "card (set (map (\<lambda>j. (c + j) mod K) [0..<W])) = length (map (\<lambda>j. (c + j) mod K) [0..<W])"
    using distinct_card by blast
  with h show "W = K" by simp
next
  assume "W = K"
  then show "distinct (map (\<lambda>j. (c + j) mod K) [0..<W])
          \<and> set (map (\<lambda>j. (c + j) mod K) [0..<W]) = {0..<K}"
    using round_robin_perm [OF assms] by simp
qed

text \<open>
  The hypothesis of the next theorem, a cursor within the channels, holds as soon as
  \<open>_init_workers\<close> has run on a runner with a pool. A runner without workers polls
  nothing and sleeps.
\<close>

lemma dict_set_not_Nil: "dict_set k v d \<noteq> []"
  by (cases d) (auto split: if_splits)

lemma fold_dict_set_not_Nil:
  "cfg \<noteq> [] \<Longrightarrow> fold (\<lambda>(nm, cls, n_procs). dict_set nm ([], [])) cfg qs \<noteq> []"
proof (induction cfg arbitrary: qs rule: rev_induct)
  case Nil
  then show ?case by simp
next
  case (snoc x xs)
  then show ?case by (cases x) (simp add: dict_set_not_Nil)
qed

lemma init_workers_cursor:
  "worker_config g \<noteq> [] \<Longrightarrow> qcycle (init_workers g) < length (worker_qs (init_workers g))"
  by (simp add: init_workers_def fold_dict_set_not_Nil)

lemma get_result_no_workers:
  "workers g = [] \<Longrightarrow>
   get_result [] g = (Blocked, None, g\<lparr>polls := polls g @ [Sleep 50]\<rparr>)"
  by (subst get_result.simps) simp

text \<open>
  C6, as amended. One attempt of \<open>_get_result\<close> makes at most as many polls as the
  runner has workers. Poll \<open>j\<close> of the attempt goes to the result channel \<open>j\<close>
  places after the cursor, round robin, and moves the cursor on. When every poll of
  the attempt finds its channel empty, the runner sleeps 50 ms and tries again (and sleeps
  for ever when nothing arrives any more). The attempt returns the first result a poll
  finds, and takes it off its channel. A full attempt polls each channel exactly once
  if and only if the runner has as many workers as pools.
\<close>

theorem get_result_round_robin:
  assumes "qcycle g < length (worker_qs g)"
  shows "((\<forall>j<length (workers g).
             snd (snd (worker_qs g ! ((qcycle g + j) mod length (worker_qs g)))) = []) \<longrightarrow>
            get_result (a # as) g =
              get_result as
                (deliver a
                   (g\<lparr>qcycle := (qcycle g + length (workers g)) mod length (worker_qs g),
                      polls := polls g
                        @ map (\<lambda>j. Poll ((qcycle g + j) mod length (worker_qs g)))
                            [0..<length (workers g)]
                        @ [Sleep 50]\<rparr>))
          \<and> get_result [] g =
              (Blocked, None,
               g\<lparr>qcycle := (qcycle g + length (workers g)) mod length (worker_qs g),
                 polls := polls g
                   @ map (\<lambda>j. Poll ((qcycle g + j) mod length (worker_qs g)))
                       [0..<length (workers g)]
                   @ [Sleep 50]\<rparr>))
       \<and> (j < length (workers g)
            \<and> (\<forall>i<j. snd (snd (worker_qs g ! ((qcycle g + i) mod length (worker_qs g)))) = [])
            \<and> worker_qs g ! ((qcycle g + j) mod length (worker_qs g)) = (nm, wq, ret # rq) \<longrightarrow>
            get_result arrivals g =
              (Returned, Some ret,
               g\<lparr>qcycle := (qcycle g + Suc j) mod length (worker_qs g),
                 polls := polls g
                   @ map (\<lambda>i. Poll ((qcycle g + i) mod length (worker_qs g))) [0..<Suc j],
                 worker_qs := (worker_qs g)
                   [(qcycle g + j) mod length (worker_qs g) := (nm, wq, rq)]\<rparr>))
       \<and> ((distinct (map (\<lambda>j. (qcycle g + j) mod length (worker_qs g)) [0..<length (workers g)])
            \<and> set (map (\<lambda>j. (qcycle g + j) mod length (worker_qs g)) [0..<length (workers g)])
                = {0..<length (worker_qs g)})
           = (length (workers g) = length (worker_qs g)))"
proof (intro conjI impI)
  assume e: "\<forall>j<length (workers g).
             snd (snd (worker_qs g ! ((qcycle g + j) mod length (worker_qs g)))) = []"
  show "get_result (a # as) g =
              get_result as
                (deliver a
                   (g\<lparr>qcycle := (qcycle g + length (workers g)) mod length (worker_qs g),
                      polls := polls g
                        @ map (\<lambda>j. Poll ((qcycle g + j) mod length (worker_qs g)))
                            [0..<length (workers g)]
                        @ [Sleep 50]\<rparr>))"
    by (subst get_result.simps) (simp add: poll_loop_none [OF assms e])
  show "get_result [] g =
              (Blocked, None,
               g\<lparr>qcycle := (qcycle g + length (workers g)) mod length (worker_qs g),
                 polls := polls g
                   @ map (\<lambda>j. Poll ((qcycle g + j) mod length (worker_qs g)))
                       [0..<length (workers g)]
                   @ [Sleep 50]\<rparr>)"
    by (subst get_result.simps) (simp add: poll_loop_none [OF assms e])
next
  assume f: "j < length (workers g)
            \<and> (\<forall>i<j. snd (snd (worker_qs g ! ((qcycle g + i) mod length (worker_qs g)))) = [])
            \<and> worker_qs g ! ((qcycle g + j) mod length (worker_qs g)) = (nm, wq, ret # rq)"
  then have f1: "j < length (workers g)"
    and f2: "\<forall>i<j. snd (snd (worker_qs g ! ((qcycle g + i) mod length (worker_qs g)))) = []"
    and f3: "worker_qs g ! ((qcycle g + j) mod length (worker_qs g)) = (nm, wq, ret # rq)"
    by simp_all
  show "get_result arrivals g =
              (Returned, Some ret,
               g\<lparr>qcycle := (qcycle g + Suc j) mod length (worker_qs g),
                 polls := polls g
                   @ map (\<lambda>i. Poll ((qcycle g + i) mod length (worker_qs g))) [0..<Suc j],
                 worker_qs := (worker_qs g)
                   [(qcycle g + j) mod length (worker_qs g) := (nm, wq, rq)]\<rparr>)"
    by (subst get_result.simps) (simp add: poll_loop_found [OF assms f1 f2 f3] del: upt_Suc)
next
  show "(distinct (map (\<lambda>j. (qcycle g + j) mod length (worker_qs g)) [0..<length (workers g)])
            \<and> set (map (\<lambda>j. (qcycle g + j) mod length (worker_qs g)) [0..<length (workers g)])
                = {0..<length (worker_qs g)})
           = (length (workers g) = length (worker_qs g))"
    by (rule round_robin_once_iff [OF assms])
qed

text \<open>
  C6, as stated, fails: a runner with one pool of two workers has one result channel,
  and an attempt that finds it empty polls it twice before it sleeps.
\<close>

theorem get_result_polls_twice:
  "length (worker_qs ex_grid_two) = 1
   \<and> length (workers ex_grid_two) = 2
   \<and> polls (snd (snd (get_result [] ex_grid_two))) = [Poll 0, Poll 0, Sleep 50]"
  by (simp add: get_result.simps ex_grid_two_def init_workers_def add_worker_def GridRunner_def
        pool_workers_def ex_process_def eval_nat_numeral Let_def)

theorem get_result_round_robin_witness:
  "qcycle ex_grid_starved < length (worker_qs ex_grid_starved)
   \<and> length (workers ex_grid_starved) = 1
   \<and> worker_qs ex_grid_starved = [(''idle'', [], []), (''busy'', [], [ex_result])]
   \<and> get_result [] ex_grid_starved =
        (Blocked, None, ex_grid_starved\<lparr>qcycle := 1, polls := [Poll 0, Sleep 50]\<rparr>)
   \<and> worker_qs ex_grid_pools ! 1 = (''slow'', [], [ex_result])
   \<and> length (workers ex_grid_pools) = 2
   \<and> get_result [] ex_grid_pools =
        (Returned, Some ex_result,
         ex_grid_idle\<lparr>qcycle := 0, polls := [Poll 0, Poll 1]\<rparr>)
   \<and> length (workers ex_grid_idle) = length (worker_qs ex_grid_idle)
   \<and> distinct (map (\<lambda>j. (qcycle ex_grid_idle + j) mod length (worker_qs ex_grid_idle))
                 [0..<length (workers ex_grid_idle)])"
proof -
  have s: "qcycle ex_grid_starved = 0" "polls ex_grid_starved = []"
    "length (workers ex_grid_starved) = 1"
    "worker_qs ex_grid_starved = [(''idle'', [], []), (''busy'', [], [ex_result])]"
    by (simp_all add: ex_grid_starved_def init_workers_def add_worker_def GridRunner_def
          pool_workers_def ex_process_def)
  have cs: "qcycle ex_grid_starved < length (worker_qs ex_grid_starved)"
    by (simp add: s)
  have c: "qcycle ex_grid_idle < length (worker_qs ex_grid_idle)"
    by (simp add: ex_grid_idle_def init_workers_def add_worker_def GridRunner_def)
  have c': "qcycle ex_grid_pools < length (worker_qs ex_grid_pools)"
    by (simp add: ex_grid_pools_def ex_grid_idle_def init_workers_def add_worker_def GridRunner_def)
  have w: "length (workers ex_grid_idle) = 2"
    by (simp add: ex_grid_idle_def init_workers_def add_worker_def GridRunner_def
          pool_workers_def ex_process_def)
  have q: "worker_qs ex_grid_pools ! 1 = (''slow'', [], [ex_result])"
    by (simp add: ex_grid_pools_def ex_grid_idle_def init_workers_def add_worker_def GridRunner_def)
  have p: "ex_grid_pools = ex_grid_idle\<lparr>worker_qs := [(''fast'', [], []), (''slow'', [], [ex_result])]\<rparr>"
    by (simp add: ex_grid_pools_def ex_grid_idle_def init_workers_def add_worker_def GridRunner_def)
  have i: "polls ex_grid_idle = [] \<and> qcycle ex_grid_idle = 0
            \<and> worker_qs ex_grid_idle = [(''fast'', [], []), (''slow'', [], [])]"
    by (simp add: ex_grid_idle_def init_workers_def add_worker_def GridRunner_def)
  have wp: "length (workers ex_grid_pools) = 2"
    by (simp add: p w)
  have wk: "length (workers ex_grid_idle) = length (worker_qs ex_grid_idle)"
    by (simp add: w i)
  from get_result_round_robin [OF cs, where j = 0]
  have r1: "get_result [] ex_grid_starved =
        (Blocked, None, ex_grid_starved\<lparr>qcycle := 1, polls := [Poll 0, Sleep 50]\<rparr>)"
    using s by simp
  from get_result_round_robin [OF c', where j = 1 and nm = "''slow''" and wq = "[]"
         and ret = ex_result and rq = "[]" and arrivals = "[]"]
  have r2: "get_result [] ex_grid_pools =
        (Returned, Some ex_result,
         ex_grid_idle\<lparr>qcycle := 0, polls := [Poll 0, Poll 1]\<rparr>)"
    using w i by (simp add: p eval_nat_numeral)
  from get_result_round_robin [OF c, where j = 0]
  have r3: "distinct (map (\<lambda>j. (qcycle ex_grid_idle + j) mod length (worker_qs ex_grid_idle))
                 [0..<length (workers ex_grid_idle)])"
    using w i by simp
  from s(3,4) cs q wp wk r1 r2 r3 show ?thesis by simp
qed

section \<open>The pre-dispatch gate: properties\<close>

text \<open>The two sets the gate computes, and what the result hook records.\<close>

lemma set_failed_parents:
  "set (failed_parents c idx) = set (predecessors c idx) \<inter> failed_tasks c"
  by (auto simp: failed_parents_def)

lemma set_undone_parents:
  "set (undone_parents c idx) = set (predecessors c idx) - completed_tasks c"
  by (auto simp: undone_parents_def)

lemma failed_parents_Nil:
  "(failed_parents c idx = []) = (set (predecessors c idx) \<inter> failed_tasks c = {})"
  using set_failed_parents [of c idx] by (metis set_empty)

lemma undone_parents_Nil:
  "(undone_parents c idx = []) = (set (predecessors c idx) \<subseteq> completed_tasks c)"
  using set_undone_parents [of c idx] by (metis set_empty Diff_eq_empty_iff)


lemma pop_last: "(case dq @ [idx] of [] \<Rightarrow> a | x # xs \<Rightarrow> b) = b"
  by (cases dq) simp_all














lemma get_task_calls [simp]:
  "get_task (reporter_task_command i (reporter_task_running j (handle_task_started k c))) idx
     = get_task c idx"
  by (simp add: get_task_def reporter_task_command_def reporter_task_running_def
        handle_task_started_def)





section \<open>Serialization failures: properties\<close>

text \<open>
  The fill step never touches the workers, and an exception out of it leaves
  \<open>run_tasks\<close> as it is.
\<close>

lemma fill_work_q_body_events:
  "events (snd (fill_work_q_body E r)) = events r \<and> started (snd (fill_work_q_body E r)) = started r"
  by (cases "task_idx_deque r")
     (auto simp: fill_work_q_body_def Let_def split: prod.splits option.splits sum.splits)

lemma fill_loop_events:
  "events (snd (fill_loop E n r)) = events r \<and> started (snd (fill_loop E n r)) = started r"
proof (induction n arbitrary: r)
  case 0
  then show ?case by simp
next
  case (Suc n)
  obtain fl r1 where b: "fill_work_q_body E r = (fl, r1)"
    by (cases "fill_work_q_body E r")
  have e: "events r1 = events r \<and> started r1 = started r"
    using fill_work_q_body_events [of E r] b by simp
  show ?case
    using b e Suc.IH [of r1] by (cases fl) simp_all
qed

lemma fill_work_q_raises_events:
  assumes "fill_work_q E r = (Some e, r1)"
  shows "events r1 = events r \<and> started r1 = started r"
proof -
  obtain eo r2 where l: "fill_loop E (length (task_idx_deque r)) r = (eo, r2)"
    by (cases "fill_loop E (length (task_idx_deque r)) r")
  have "events r2 = events r \<and> started r2 = started r"
    using fill_loop_events [of E "length (task_idx_deque r)" r] l by simp
  moreover have "r1 = r2"
    using assms l by (cases eo) (simp_all add: fill_work_q_def)
  ultimately show ?thesis by simp
qed

lemma run_loop_fill_raises:
  assumes "fill_work_q E r = (Some e, r1)"
  shows "run_loop E gets r = (Raised e, r1)"
  by (subst run_loop.simps) (simp add: assms)

lemma fill_work_q_body_serialize_fails:
  assumes "task_idx_deque r = dq @ [idx]"
    and "set (predecessors (ctx r) idx) \<inter> failed_tasks (ctx r) = {}"
    and "set (predecessors (ctx r) idx) \<subseteq> completed_tasks (ctx r)"
    and "idx < length (tasks (ctx r))"
    and "dumps E (tasks (ctx r) ! idx) = Inl e"
    and "is_Exception e"
  shows "fill_work_q_body E r =
           (Raise (ValueError (serialize_error_msg (task_str (tasks (ctx r) ! idx)) (exc_str e))),
            r\<lparr>task_idx_deque := dq\<rparr>)"
proof -
  have fp: "failed_parents (ctx r) idx = []"
    using assms(2) by (simp add: failed_parents_Nil)
  have up: "undone_parents (ctx r) idx = []"
    using assms(3) by (simp add: undone_parents_Nil)
  show ?thesis
    using fp up assms(4-6)
    by (simp add: fill_work_q_body_def assms(1) pop_last Let_def serialize_task_def get_task_def)
qed

text \<open>
  What the code does when serialization fails. When the task popped passes the gate
  and \<open>cloudpickle.dumps\<close> raises an \<open>Exception\<close> for it, the pass raises a
  \<open>ValueError\<close> whose text names the task and the cause; the state is the one
  before the pass with the index popped, so the task is not on the work channel and
  the coordinator was not told it started. \<open>run_tasks\<close> does not catch the error:
  it reaches the caller with that very state. This holds for whatever exception the
  fill step raises in whatever pass of the loop, and the step leaves the record of
  what was done to the workers as it was.
\<close>

theorem serialization_failure:
  assumes "task_idx_deque r = dq @ [idx]"
    and "set (predecessors (ctx r) idx) \<inter> failed_tasks (ctx r) = {}"
    and "set (predecessors (ctx r) idx) \<subseteq> completed_tasks (ctx r)"
    and "idx < length (tasks (ctx r))"
    and "dumps E (tasks (ctx r) ! idx) = Inl e"
    and "is_Exception e"
  shows "fill_work_q_body E r =
           (Raise (ValueError (''Unable to serialize task '' @ [CHR 0x60]
                      @ task_str (tasks (ctx r) ! idx) @ [CHR 0x27]
                      @ ''. Original error was '' @ [CHR 0x60] @ exc_str e @ [CHR 0x27] @ ''.'')),
            r\<lparr>task_idx_deque := dq\<rparr>)
       \<and> run_loop E gets r =
           (Raised (ValueError (''Unable to serialize task '' @ [CHR 0x60]
                      @ task_str (tasks (ctx r) ! idx) @ [CHR 0x27]
                      @ ''. Original error was '' @ [CHR 0x60] @ exc_str e @ [CHR 0x27] @ ''.'')),
            r\<lparr>task_idx_deque := dq\<rparr>)
       \<and> (\<forall>r0 e0 r1. fill_work_q E r0 = (Some e0, r1) \<longrightarrow>
              run_loop E gets r0 = (Raised e0, r1) \<and> events r1 = events r0)"
proof -
  let ?ve = "ValueError (serialize_error_msg (task_str (tasks (ctx r) ! idx)) (exc_str e))"
  have b: "fill_work_q_body E r = (Raise ?ve, r\<lparr>task_idx_deque := dq\<rparr>)"
    by (rule fill_work_q_body_serialize_fails [OF assms])
  have "fill_loop E (Suc (length dq)) r = (Some ?ve, r\<lparr>task_idx_deque := dq\<rparr>)"
    by (simp add: b)
  then have f: "fill_work_q E r = (Some ?ve, r\<lparr>task_idx_deque := dq\<rparr>)"
    by (simp add: fill_work_q_def assms(1))
  have l: "run_loop E gets r = (Raised ?ve, r\<lparr>task_idx_deque := dq\<rparr>)"
    by (rule run_loop_fill_raises [OF f])
  have g: "\<forall>r0 e0 r1. fill_work_q E r0 = (Some e0, r1) \<longrightarrow>
              run_loop E gets r0 = (Raised e0, r1) \<and> events r1 = events r0"
    using run_loop_fill_raises fill_work_q_raises_events by blast
  from b l g show ?thesis
    by (simp add: serialize_error_msg_def)
qed

text \<open>
  C4. The runner is given the deque \<open>[1, 0]\<close>, task 1 depending on task 0. Task 0 is
  serialized and dispatched and the workers are started; its result arrives; then
  serializing task 1 fails. The \<open>ValueError\<close> names task 1 and the cause, task 1 is
  neither on the work channel nor marked started, and the error reaches the caller of
  \<open>run_tasks\<close> with the workers started and neither terminated nor cleaned up.
\<close>

theorem serialization_failure_skips_termination:
  "fst (run_tasks ex_env [Got ex_result] ex_parallel [1, 0])
     = Raised (ValueError (serialize_error_msg ''Task(1)'' ''cannot pickle''))
   \<and> events (snd (run_tasks ex_env [Got ex_result] ex_parallel [1, 0])) = [StartWorkers]
   \<and> started (snd (run_tasks ex_env [Got ex_result] ex_parallel [1, 0]))
   \<and> work_q (snd (run_tasks ex_env [Got ex_result] ex_parallel [1, 0]))
       = [(Pickled ''Task(0)'', PyNone)]
   \<and> calls (ctx (snd (run_tasks ex_env [Got ex_result] ex_parallel [1, 0])))
       = [HandleTaskStarted 0, HandleTaskResult ex_result]"
  by (simp add: run_tasks_def run_loop.simps fill_work_q_def fill_work_q_body_def
        eval_nat_numeral Let_def ex_parallel_def ex_ctx_def failed_parents_def undone_parents_def
        serialize_task_def get_task_def ex_env_def ex_task_def ex_failing_task_def
        PicklingError_def handle_task_started_def start_workers_def handle_task_result_def
        ex_result_def error_truthy_def)

theorem serialization_failure_witness:
  "task_idx_deque ex_parallel_ready = [] @ [1]
   \<and> set (predecessors (ctx ex_parallel_ready) 1) \<inter> failed_tasks (ctx ex_parallel_ready) = {}
   \<and> set (predecessors (ctx ex_parallel_ready) 1) \<subseteq> completed_tasks (ctx ex_parallel_ready)
   \<and> 1 < length (tasks (ctx ex_parallel_ready))
   \<and> dumps ex_env (tasks (ctx ex_parallel_ready) ! 1) = Inl PicklingError
   \<and> is_Exception PicklingError
   \<and> run_loop ex_env [] ex_parallel_ready =
        (Raised (ValueError (''Unable to serialize task '' @ [CHR 0x60] @ ''Task(1)'' @ [CHR 0x27]
                   @ ''. Original error was '' @ [CHR 0x60] @ ''cannot pickle'' @ [CHR 0x27] @ ''.'')),
         ex_parallel_ready\<lparr>task_idx_deque := []\<rparr>)
   \<and> events (ex_parallel_ready\<lparr>task_idx_deque := []\<rparr>) = [StartWorkers]"
proof -
  have a: "task_idx_deque ex_parallel_ready = [] @ [1]"
    by (simp add: ex_parallel_ready_def)
  have b: "set (predecessors (ctx ex_parallel_ready) 1) \<inter> failed_tasks (ctx ex_parallel_ready) = {}"
    by (simp add: ex_parallel_ready_def ex_ctx_def)
  have c: "set (predecessors (ctx ex_parallel_ready) 1) \<subseteq> completed_tasks (ctx ex_parallel_ready)"
    by (simp add: ex_parallel_ready_def ex_ctx_def)
  have d: "1 < length (tasks (ctx ex_parallel_ready))"
    by (simp add: ex_parallel_ready_def ex_ctx_def)
  have e: "dumps ex_env (tasks (ctx ex_parallel_ready) ! 1) = Inl PicklingError"
    by (simp add: ex_parallel_ready_def ex_ctx_def ex_env_def ex_failing_task_def)
  have f: "is_Exception PicklingError"
    by (simp add: PicklingError_def)
  have t: "task_str (tasks (ctx ex_parallel_ready) ! Suc 0) = ''Task(1)''"
    "exc_str PicklingError = ''cannot pickle''"
    by (simp_all add: ex_parallel_ready_def ex_ctx_def ex_failing_task_def PicklingError_def)
  have g: "events (ex_parallel_ready\<lparr>task_idx_deque := []\<rparr>) = [StartWorkers]"
    by (simp add: ex_parallel_ready_def)
  from serialization_failure [OF a b c d e f, of "[]"] a b c d e f g show ?thesis
    by (simp add: t)
qed

end
